theory Spec2Isabelle
  imports
    Complex_Main
    "HOL-Library.Sublist"
    "HOL-Library.Log_Nat"
    "HOL-Library.Power_By_Squaring"
begin

section \<open>Python values\<close>

text \<open>
  The service in \<^verbatim>\<open>app.py\<close> works on the values that a JSON request body decodes to.
  A text is a list of code points; the model covers the code points below 256, which is
  what \<^typ>\<open>char\<close> holds, and on these the string operations below agree with Python's
  \<^verbatim>\<open>str.strip\<close>, \<^verbatim>\<open>str.lower\<close>, \<^verbatim>\<open>str.split\<close> and \<^verbatim>\<open>in\<close>.
  A float carries its value together with the text that \<^verbatim>\<open>repr\<close> prints for it: the
  printing algorithm (shortest digits that read back) is not part of the model.
  A dictionary is an association list with distinct keys, in insertion order.
\<close>

datatype pyval =
    PNone
  | PBool bool
  | PInt int
  | PFloat rat string
  | PStr string
  | PList "pyval list"
  | PDict "(string \<times> pyval) list"

datatype py_error =
    TypeError
  | ValueError
  | AttributeError
  | KeyError
  | ZeroDivisionError
  | RecursionError
  | OverflowError
  | ExternalError string

subsection \<open>Text operations\<close>

definition py_isspace :: "char \<Rightarrow> bool" where
  "py_isspace c =
     (let n = (of_char c :: nat)
      in (9 \<le> n \<and> n \<le> 13) \<or> (28 \<le> n \<and> n \<le> 32) \<or> n = 133 \<or> n = 160)"

definition py_strip :: "string \<Rightarrow> string" where
  "py_strip s = rev (dropWhile py_isspace (rev (dropWhile py_isspace s)))"

definition py_lower_char :: "char \<Rightarrow> char" where
  "py_lower_char c =
     (let n = (of_char c :: nat)
      in if (65 \<le> n \<and> n \<le> 90) \<or> (192 \<le> n \<and> n \<le> 222 \<and> n \<noteq> 215)
         then char_of (n + 32) else c)"

definition py_lower :: "string \<Rightarrow> string" where
  "py_lower s = map py_lower_char s"

fun py_split :: "char \<Rightarrow> string \<Rightarrow> string list" where
  "py_split sep [] = [[]]"
| "py_split sep (c # cs) =
     (if c = sep then [] # py_split sep cs
      else (case py_split sep cs of
              [] \<Rightarrow> [[c]]
            | t # ts \<Rightarrow> (c # t) # ts))"

text \<open>\<^verbatim>\<open>tok in txt\<close> on two texts: \<open>tok\<close> occurs in \<open>txt\<close> as a contiguous block.\<close>

definition py_in :: "string \<Rightarrow> string \<Rightarrow> bool" where
  "py_in tok txt = sublist tok txt"

fun py_join :: "string \<Rightarrow> string list \<Rightarrow> string" where
  "py_join sep [] = []"
| "py_join sep [t] = t"
| "py_join sep (t # u # ts) = t @ sep @ py_join sep (u # ts)"

subsection \<open>Conversion to text\<close>

definition digit_char :: "nat \<Rightarrow> char" where
  "digit_char d = char_of (48 + d)"

fun nat_digits :: "nat \<Rightarrow> string" where
  "nat_digits n = (if n < 10 then [digit_char n] else nat_digits (n div 10) @ [digit_char (n mod 10)])"

declare nat_digits.simps [simp del]

definition int_str :: "int \<Rightarrow> string" where
  "int_str i = (if i < 0 then CHR ''-'' # nat_digits (nat (- i)) else nat_digits (nat i))"

definition hex_char :: "nat \<Rightarrow> char" where
  "hex_char d = (if d < 10 then char_of (48 + d) else char_of (87 + d))"

definition py_repr_char :: "char \<Rightarrow> char \<Rightarrow> string" where
  "py_repr_char quote c =
     (let n = (of_char c :: nat)
      in if c = quote \<or> n = 92 then [CHR 0x5C, c]
         else if n = 9 then [CHR 0x5C, CHR ''t'']
         else if n = 10 then [CHR 0x5C, CHR ''n'']
         else if n = 13 then [CHR 0x5C, CHR ''r'']
         else if n < 32 \<or> (127 \<le> n \<and> n \<le> 160) \<or> n = 173
           then [CHR 0x5C, CHR ''x'', hex_char (n div 16), hex_char (n mod 16)]
         else [c])"

definition py_repr_str :: "string \<Rightarrow> string" where
  "py_repr_str s =
     (let quote = (if CHR 0x27 \<in> set s \<and> CHR 0x22 \<notin> set s then CHR 0x22 else CHR 0x27)
      in quote # concat (map (py_repr_char quote) s) @ [quote])"

primrec py_repr :: "pyval \<Rightarrow> string" where
  "py_repr PNone = ''None''"
| "py_repr (PBool b) = (if b then ''True'' else ''False'')"
| "py_repr (PInt i) = int_str i"
| "py_repr (PFloat x txt) = txt"
| "py_repr (PStr s) = py_repr_str s"
| "py_repr (PList vs) = ''['' @ py_join '', '' (map py_repr vs) @ '']''"
| "py_repr (PDict kvs) =
     ''{'' @ py_join '', '' (map (\<lambda>(k, r). py_repr_str k @ '': '' @ r) (map (map_prod id py_repr) kvs)) @ ''}''"

text \<open>\<^verbatim>\<open>str(v)\<close>, where it returns: a text is itself, anything else prints as
  \<^verbatim>\<open>repr\<close> does. When it returns and when it raises is \<open>py_str_call\<close> below.\<close>

definition py_str :: "pyval \<Rightarrow> string" where
  "py_str v = (case v of PStr s \<Rightarrow> s | _ \<Rightarrow> py_repr v)"

section \<open>Normalization helpers\<close>

text \<open>
  \<^verbatim>\<open>
  def normalize_tech_stack(value):
      if isinstance(value, list):
          return [str(v).strip() for v in value if str(v).strip()]
      if isinstance(value, str):
          return [v.strip() for v in value.split(",") if v.strip()]
      return []
  \<close>
\<close>

definition normalize_tech_stack :: "pyval \<Rightarrow> string list" where
  "normalize_tech_stack val =
     (case val of
        PList vs \<Rightarrow> [py_strip (py_str v). v \<leftarrow> vs, py_strip (py_str v) \<noteq> []]
      | PStr s \<Rightarrow> [py_strip v. v \<leftarrow> py_split CHR '','' s, py_strip v \<noteq> []]
      | _ \<Rightarrow> [])"

section \<open>The interpreter\<close>

text \<open>
  Three builtins that the program calls do not behave the same on every CPython, so the
  interpreter is a parameter of the model:
  \<^item> \<^verbatim>\<open>sum\<close> on floats adds the items from left to right; from CPython 3.12 on it also
    carries a compensation term for the rounding errors (Neumaier's summation) and adds it
    at the end;
  \<^item> \<^verbatim>\<open>str\<close> of an integer raises \<^verbatim>\<open>ValueError\<close> when the integer has more digits than
    \<^verbatim>\<open>sys.get_int_max_str_digits()\<close>, which is 4300 by default from CPython 3.11 on; the
    value 0 stands for no limit;
  \<^item> \<^verbatim>\<open>repr\<close> of nested lists and dictionaries raises \<^verbatim>\<open>RecursionError\<close> when the
    nesting is deeper than the recursion limit leaves room for at the call.
\<close>

record interpreter =
  sum_compensated :: bool
  int_max_str_digits :: nat
  repr_budget :: nat


definition cpython_3_12 :: "nat \<Rightarrow> interpreter" where
  "cpython_3_12 budget =
     \<lparr>sum_compensated = True, int_max_str_digits = 4300, repr_budget = budget\<rparr>"


section \<open>Floating point\<close>

text \<open>
  A Python float is an IEEE 754 binary64 number. The finite ones are rationals, and every
  arithmetic operation returns the exact result rounded to the nearest binary64 number,
  ties to the one with an even significand. \<open>b64\<close> is that rounding: the spacing of the
  binary64 numbers around \<open>x\<close> is \<open>quantum x = 2 powi (e - 52)\<close> where \<open>2 powi e \<le> \<bar>x\<bar> < 2 powi (e + 1)\<close>,
  and never less than \<open>2 powi (- 1074)\<close>. Overflow to infinity is not modelled; the scores
  computed here stay below 10.
\<close>

definition round_half_even :: "rat \<Rightarrow> int" where
  "round_half_even y =
     (let f = \<lfloor>y\<rfloor>; r = y - of_int f
      in if r < 1 / 2 then f
         else if 1 / 2 < r then f + 1
         else if even f then f else f + 1)"

definition ilog2 :: "rat \<Rightarrow> int" where
  "ilog2 x =
     (let (p, q) = quotient_of \<bar>x\<bar>;
          d = bitlen p - bitlen q
      in if 2 powi d \<le> \<bar>x\<bar> then d else d - 1)"

definition quantum :: "rat \<Rightarrow> rat" where
  "quantum x = 2 powi (max (ilog2 x) (- 1022) - 52)"

definition b64 :: "rat \<Rightarrow> rat" where
  "b64 x = (if x = 0 then 0 else of_int (round_half_even (x / quantum x)) * quantum x)"

definition float_add :: "rat \<Rightarrow> rat \<Rightarrow> rat" where
  "float_add a b = b64 (a + b)"

definition float_mul :: "rat \<Rightarrow> rat \<Rightarrow> rat" where
  "float_mul a b = b64 (a * b)"

text \<open>
  \<^verbatim>\<open>a / b\<close> on two integers (true division) is the exact quotient rounded once;
  on a float and an integer the integer is converted to a float first.
\<close>

definition int_truediv :: "int \<Rightarrow> int \<Rightarrow> py_error + rat" where
  "int_truediv a b = (if b = 0 then Inl ZeroDivisionError else Inr (b64 (of_int a / of_int b)))"

definition float_truediv_int :: "rat \<Rightarrow> int \<Rightarrow> py_error + rat" where
  "float_truediv_int a b =
     (if b = 0 then Inl ZeroDivisionError else Inr (b64 (a / b64 (of_int b))))"

text \<open>
  \<^verbatim>\<open>round(x, ndigits)\<close> on a float: the exact value of \<open>x\<close> is rounded to \<open>ndigits\<close>
  decimals, an exact tie going to the even digit, and the decimal is read back as a float.
\<close>

definition py_round :: "rat \<Rightarrow> nat \<Rightarrow> rat" where
  "py_round x ndigits = b64 (of_int (round_half_even (x * 10 ^ ndigits)) / 10 ^ ndigits)"

text \<open>
  \<^verbatim>\<open>sum(scores)\<close> starts from the integer 0 and adds the items from left to right. The
  compensated sum of CPython 3.12 adds the first float to the 0 in the same way; from the
  second float on it keeps, beside the running sum \<open>f\<close>, the sum \<open>c\<close> of the rounding errors
  of the additions, and adds \<open>c\<close> to the result at the end when it is not zero:
  \<^verbatim>\<open>
  double t = f_result + x;
  if (fabs(f_result) >= fabs(x)) c += (f_result - t) + x;
  else                           c += (x - t) + f_result;
  f_result = t;
  \<close>
\<close>

definition float_sub :: "rat \<Rightarrow> rat \<Rightarrow> rat" where
  "float_sub a b = b64 (a - b)"

definition py_sum_plain :: "rat list \<Rightarrow> rat" where
  "py_sum_plain xs = foldl float_add 0 xs"

definition compensated_step :: "rat \<times> rat \<Rightarrow> rat \<Rightarrow> rat \<times> rat" where
  "compensated_step fc x =
     (let f = fst fc; c = snd fc; t = float_add f x
      in if \<bar>x\<bar> \<le> \<bar>f\<bar> then (t, float_add c (float_add (float_sub f t) x))
         else (t, float_add c (float_add (float_sub x t) f)))"

definition py_sum_compensated :: "rat list \<Rightarrow> rat" where
  "py_sum_compensated xs =
     (case xs of
        [] \<Rightarrow> 0
      | x # rest \<Rightarrow>
          let fc = foldl compensated_step (float_add 0 x, 0) rest
          in if snd fc \<noteq> 0 then float_add (fst fc) (snd fc) else fst fc)"

definition py_sum :: "interpreter \<Rightarrow> rat list \<Rightarrow> rat" where
  "py_sum interp xs = (if sum_compensated interp then py_sum_compensated xs else py_sum_plain xs)"

section \<open>Score helpers\<close>

text \<open>
  \<^verbatim>\<open>
  def compute_skill_match(idea_tech_stack, builder_tech_stack):
      idea_set = {t.lower() for t in normalize_tech_stack(idea_tech_stack)}
      builder_set = {t.lower() for t in normalize_tech_stack(builder_tech_stack)}
      if not idea_set:
          return 0.0
      match = idea_set.intersection(builder_set)
      if not match:
          return 0.0
      return len(match) / len(idea_set)
  \<close>
\<close>

definition compute_skill_match :: "pyval \<Rightarrow> pyval \<Rightarrow> py_error + rat" where
  "compute_skill_match idea_tech_stack builder_tech_stack =
     (let idea_set = set (map py_lower (normalize_tech_stack idea_tech_stack));
          builder_set = set (map py_lower (normalize_tech_stack builder_tech_stack))
      in if idea_set = {} then Inr 0
         else let match = idea_set \<inter> builder_set
              in if match = {} then Inr 0
                 else int_truediv (int (card match)) (int (card idea_set)))"

text \<open>Truth value and iteration of a Python value, as \<^verbatim>\<open>if not answers\<close> and
  \<^verbatim>\<open>for ans in answers\<close> use them.\<close>

definition py_truthy :: "pyval \<Rightarrow> bool" where
  "py_truthy v =
     (case v of
        PNone \<Rightarrow> False
      | PBool b \<Rightarrow> b
      | PInt i \<Rightarrow> i \<noteq> 0
      | PFloat x txt \<Rightarrow> x \<noteq> 0
      | PStr s \<Rightarrow> s \<noteq> []
      | PList vs \<Rightarrow> vs \<noteq> []
      | PDict kvs \<Rightarrow> kvs \<noteq> [])"

definition py_iter :: "pyval \<Rightarrow> py_error + pyval list" where
  "py_iter v =
     (case v of
        PList vs \<Rightarrow> Inr vs
      | PStr s \<Rightarrow> Inr (map (\<lambda>c. PStr [c]) s)
      | PDict kvs \<Rightarrow> Inr (map (\<lambda>(k, x). PStr k) kvs)
      | _ \<Rightarrow> Inl TypeError)"

definition py_len :: "pyval \<Rightarrow> py_error + nat" where
  "py_len v =
     (case v of
        PList vs \<Rightarrow> Inr (length vs)
      | PStr s \<Rightarrow> Inr (length s)
      | PDict kvs \<Rightarrow> Inr (length kvs)
      | _ \<Rightarrow> Inl TypeError)"

text \<open>
  \<^verbatim>\<open>
  def compute_answer_quality(answers):
      if not answers:
          return 0.0
      bad_tokens = [
          "i dont know", "i don't know", "idk", "not sure",
          "no idea", "na", "n/a", "nothing", "nope"
      ]
      scores = []
      for ans in answers:
          txt = str(ans).strip().lower()
          if any(tok in txt for tok in bad_tokens):
              scores.append(0.0)
              continue
          if len(txt) < 20:
              scores.append(0.2)
          elif len(txt) < 50:
              scores.append(0.5)
          else:
              scores.append(0.9)
      return round(sum(scores) / len(scores), 2)
  \<close>
\<close>

definition bad_tokens :: "string list" where
  "bad_tokens =
     [''i dont know'', [CHR ''i'', CHR '' '', CHR ''d'', CHR ''o'', CHR ''n'', CHR 0x27, CHR ''t'',
                        CHR '' '', CHR ''k'', CHR ''n'', CHR ''o'', CHR ''w''],
      ''idk'', ''not sure'', ''no idea'', ''na'', ''n/a'', ''nothing'', ''nope'']"

text \<open>The loop over the answers; \<open>scores\<close> is the list built so far.\<close>

fun answer_scores :: "pyval list \<Rightarrow> rat list \<Rightarrow> rat list" where
  "answer_scores [] scores = scores"
| "answer_scores (ans # rest) scores =
     (let txt = py_lower (py_strip (py_str ans))
      in if list_ex (\<lambda>tok. py_in tok txt) bad_tokens then answer_scores rest (scores @ [0])
         else if length txt < 20 then answer_scores rest (scores @ [b64 (2 / 10)])
         else if length txt < 50 then answer_scores rest (scores @ [5 / 10])
         else answer_scores rest (scores @ [b64 (9 / 10)]))"

definition compute_answer_quality :: "interpreter \<Rightarrow> pyval \<Rightarrow> py_error + rat" where
  "compute_answer_quality interp answers =
     (if \<not> py_truthy answers then Inr 0
      else case py_iter answers of
             Inl e \<Rightarrow> Inl e
           | Inr items \<Rightarrow>
               let scores = answer_scores items []
               in case float_truediv_int (py_sum interp scores) (int (length scores)) of
                    Inl e \<Rightarrow> Inl e
                  | Inr mean \<Rightarrow> Inr (py_round mean 2))"

text \<open>
  \<^verbatim>\<open>
  def compute_final_readiness(skill_match, answer_quality):
      base = (skill_match * 0.55) + (answer_quality * 0.45)
      score = base * 10
      if skill_match == 0:
          return round(min(score, 2.5), 1)
      if answer_quality < 0.25:
          return round(min(score, 3.0), 1)
      return round(score, 1)
  \<close>
\<close>

definition compute_final_readiness :: "rat \<Rightarrow> rat \<Rightarrow> rat" where
  "compute_final_readiness skill_match answer_quality =
     (let base = float_add (float_mul skill_match (b64 (55 / 100)))
                           (float_mul answer_quality (b64 (45 / 100)));
          score = float_mul base 10
      in if skill_match = 0 then py_round (min score (5 / 2)) 1
         else if answer_quality < 25 / 100 then py_round (min score 3) 1
         else py_round score 1)"

section \<open>Conversions used by the routes\<close>

text \<open>
  \<^verbatim>\<open>int(v)\<close>: an integer is itself, a boolean is 0 or 1, a float is cut towards zero,
  a text is read as a decimal literal (blanks around it, an optional sign, digits with
  single underscores between them), and any other value is a type error. The
  interpreter's limit on the number of digits of such a literal is not modelled.
\<close>

definition int_isspace :: "char \<Rightarrow> bool" where
  "int_isspace c =
     (let n = (of_char c :: nat) in (9 \<le> n \<and> n \<le> 13) \<or> n = 32 \<or> n = 133 \<or> n = 160)"

definition is_digit :: "char \<Rightarrow> bool" where
  "is_digit c = (let n = (of_char c :: nat) in 48 \<le> n \<and> n \<le> 57)"

fun parse_digits :: "nat \<Rightarrow> bool \<Rightarrow> string \<Rightarrow> nat option" where
  "parse_digits acc after_digit [] = (if after_digit then Some acc else None)"
| "parse_digits acc after_digit (c # cs) =
     (if is_digit c then parse_digits (acc * 10 + (of_char c - 48)) True cs
      else if c = CHR ''_'' \<and> after_digit then
        (case cs of [] \<Rightarrow> None
         | d # ds \<Rightarrow> if is_digit d then parse_digits acc False cs else None)
      else None)"

definition int_of_text :: "string \<Rightarrow> py_error + int" where
  "int_of_text s =
     (let t = rev (dropWhile int_isspace (rev (dropWhile int_isspace s)));
          (negative, body) =
            (case t of
               [] \<Rightarrow> (False, t)
             | c # cs \<Rightarrow> if c = CHR ''-'' then (True, cs)
                          else if c = CHR ''+'' then (False, cs) else (False, t))
      in case parse_digits 0 False body of
           None \<Rightarrow> Inl ValueError
         | Some n \<Rightarrow> Inr (if negative then - int n else int n))"

definition py_int :: "pyval \<Rightarrow> py_error + int" where
  "py_int v =
     (case v of
        PInt i \<Rightarrow> Inr i
      | PBool b \<Rightarrow> Inr (if b then 1 else 0)
      | PFloat x txt \<Rightarrow> Inr (if 0 \<le> x then \<lfloor>x\<rfloor> else \<lceil>x\<rceil>)
      | PStr s \<Rightarrow> int_of_text s
      | _ \<Rightarrow> Inl TypeError)"

text \<open>Sequencing of operations that may raise: the first exception ends the run.\<close>

definition py_bind :: "py_error + 'a \<Rightarrow> ('a \<Rightarrow> py_error + 'b) \<Rightarrow> py_error + 'b" where
  "py_bind m f = (case m of Inl e \<Rightarrow> Inl e | Inr x \<Rightarrow> f x)"

text \<open>\<^verbatim>\<open>d[k]\<close> and \<^verbatim>\<open>d.get(k, default)\<close> on a dictionary.\<close>

definition getitem :: "(string \<times> pyval) list \<Rightarrow> string \<Rightarrow> py_error + pyval" where
  "getitem d k = (case map_of d k of None \<Rightarrow> Inl KeyError | Some v \<Rightarrow> Inr v)"

definition get_default :: "(string \<times> pyval) list \<Rightarrow> string \<Rightarrow> pyval \<Rightarrow> pyval" where
  "get_default d k dflt = (case map_of d k of None \<Rightarrow> dflt | Some v \<Rightarrow> v)"

text \<open>\<^verbatim>\<open>v.get(k, default)\<close> on any value: only a dictionary has the method.\<close>

definition py_get :: "pyval \<Rightarrow> string \<Rightarrow> pyval \<Rightarrow> py_error + pyval" where
  "py_get v k dflt =
     (case v of PDict kvs \<Rightarrow> Inr (get_default kvs k dflt) | _ \<Rightarrow> Inl AttributeError)"

section \<open>Direct calls, where the conversion to text can raise\<close>

text \<open>
  \<open>py_str v\<close> above is the text that \<^verbatim>\<open>str(v)\<close> returns when it returns. The routes
  pass to the scorers only values that the JSON decoder of the same interpreter has
  produced, and the decoder accepts no integer beyond the digit limit. A direct call of a
  scorer can receive any value, and then \<^verbatim>\<open>str\<close> can raise. The definitions of this
  section follow the same source functions with that error path: each \<^verbatim>\<open>str(v)\<close> is
  \<open>py_str_call\<close>, and the first exception ends the call.
\<close>

fun py_sequence :: "(py_error + 'a) list \<Rightarrow> py_error + 'a list" where
  "py_sequence [] = Inr []"
| "py_sequence (r # rs) = py_bind r (\<lambda>x. py_bind (py_sequence rs) (\<lambda>xs. Inr (x # xs)))"

definition int_str_call :: "interpreter \<Rightarrow> int \<Rightarrow> py_error + string" where
  "int_str_call interp i =
     (if int_max_str_digits interp \<noteq> 0
         \<and> int_max_str_digits interp < length (nat_digits (nat \<bar>i\<bar>))
      then Inl ValueError else Inr (int_str i))"

text \<open>\<open>py_repr_call interp v n\<close>: \<^verbatim>\<open>repr(v)\<close> when \<open>n\<close> nested calls are still allowed.\<close>

primrec py_repr_call :: "interpreter \<Rightarrow> pyval \<Rightarrow> nat \<Rightarrow> py_error + string" where
  "py_repr_call interp PNone n = (if n = 0 then Inl RecursionError else Inr ''None'')"
| "py_repr_call interp (PBool b) n =
     (if n = 0 then Inl RecursionError else Inr (if b then ''True'' else ''False''))"
| "py_repr_call interp (PInt i) n = (if n = 0 then Inl RecursionError else int_str_call interp i)"
| "py_repr_call interp (PFloat x txt) n = (if n = 0 then Inl RecursionError else Inr txt)"
| "py_repr_call interp (PStr s) n = (if n = 0 then Inl RecursionError else Inr (py_repr_str s))"
| "py_repr_call interp (PList vs) n =
     (if n = 0 then Inl RecursionError
      else py_bind (py_sequence (map (\<lambda>r. r (n - 1)) (map (py_repr_call interp) vs)))
             (\<lambda>ts. Inr (''['' @ py_join '', '' ts @ '']'')))"
| "py_repr_call interp (PDict kvs) n =
     (if n = 0 then Inl RecursionError
      else py_bind
             (py_sequence
                (map (\<lambda>(k, r). py_bind (r (n - 1)) (\<lambda>t. Inr (py_repr_str k @ '': '' @ t)))
                     (map (map_prod id (py_repr_call interp)) kvs)))
             (\<lambda>ts. Inr (''{'' @ py_join '', '' ts @ ''}'')))"

definition py_str_call :: "interpreter \<Rightarrow> pyval \<Rightarrow> py_error + string" where
  "py_str_call interp v =
     (case v of PStr s \<Rightarrow> Inr s | _ \<Rightarrow> py_repr_call interp v (repr_budget interp))"

definition str_returns :: "interpreter \<Rightarrow> pyval \<Rightarrow> bool" where
  "str_returns interp v = (case py_str_call interp v of Inl e \<Rightarrow> False | Inr s \<Rightarrow> True)"

text \<open>The elements that a list comprehension over the value converts to text.\<close>

definition str_operands :: "pyval \<Rightarrow> pyval list" where
  "str_operands v = (case v of PList vs \<Rightarrow> vs | _ \<Rightarrow> [])"

text \<open>
  \<^verbatim>\<open>[str(v).strip() for v in value if str(v).strip()]\<close>: the condition is evaluated for
  every element and the element expression for those that pass.
\<close>

fun normalize_items :: "interpreter \<Rightarrow> pyval list \<Rightarrow> py_error + string list" where
  "normalize_items interp [] = Inr []"
| "normalize_items interp (v # vs) =
     py_bind (py_str_call interp v) (\<lambda>c.
     if py_strip c \<noteq> []
     then py_bind (py_str_call interp v) (\<lambda>t.
          py_bind (normalize_items interp vs) (\<lambda>rest. Inr (py_strip t # rest)))
     else normalize_items interp vs)"

definition normalize_tech_stack_call :: "interpreter \<Rightarrow> pyval \<Rightarrow> py_error + string list" where
  "normalize_tech_stack_call interp val =
     (case val of
        PList vs \<Rightarrow> normalize_items interp vs
      | PStr s \<Rightarrow> Inr [py_strip v. v \<leftarrow> py_split CHR '','' s, py_strip v \<noteq> []]
      | _ \<Rightarrow> Inr [])"

definition compute_skill_match_call :: "interpreter \<Rightarrow> pyval \<Rightarrow> pyval \<Rightarrow> py_error + rat" where
  "compute_skill_match_call interp idea_tech_stack builder_tech_stack =
     py_bind (normalize_tech_stack_call interp idea_tech_stack) (\<lambda>idea_tokens.
     py_bind (normalize_tech_stack_call interp builder_tech_stack) (\<lambda>builder_tokens.
     let idea_set = set (map py_lower idea_tokens);
         builder_set = set (map py_lower builder_tokens)
     in if idea_set = {} then Inr 0
        else let match = idea_set \<inter> builder_set
             in if match = {} then Inr 0
                else int_truediv (int (card match)) (int (card idea_set))))"

fun answer_scores_call :: "interpreter \<Rightarrow> pyval list \<Rightarrow> rat list \<Rightarrow> py_error + rat list" where
  "answer_scores_call interp [] scores = Inr scores"
| "answer_scores_call interp (ans # rest) scores =
     py_bind (py_str_call interp ans) (\<lambda>t.
     let txt = py_lower (py_strip t)
     in if list_ex (\<lambda>tok. py_in tok txt) bad_tokens
          then answer_scores_call interp rest (scores @ [0])
        else if length txt < 20 then answer_scores_call interp rest (scores @ [b64 (2 / 10)])
        else if length txt < 50 then answer_scores_call interp rest (scores @ [5 / 10])
        else answer_scores_call interp rest (scores @ [b64 (9 / 10)]))"

definition compute_answer_quality_call :: "interpreter \<Rightarrow> pyval \<Rightarrow> py_error + rat" where
  "compute_answer_quality_call interp answers =
     (if \<not> py_truthy answers then Inr 0
      else py_bind (py_iter answers) (\<lambda>items.
           py_bind (answer_scores_call interp items []) (\<lambda>scores.
           py_bind (float_truediv_int (py_sum interp scores) (int (length scores))) (\<lambda>mean.
           Inr (py_round mean 2)))))"

text \<open>
  \<^verbatim>\<open>compute_final_readiness\<close> begins with \<^verbatim>\<open>skill_match * 0.55\<close> and
  \<^verbatim>\<open>answer_quality * 0.45\<close>. A float operand is taken as it is, an integer or a boolean is
  converted to the nearest float, with \<^verbatim>\<open>OverflowError\<close> when it lies beyond the largest
  float, and any other value raises \<^verbatim>\<open>TypeError\<close>. The comparisons, \<^verbatim>\<open>min\<close> and
  \<^verbatim>\<open>round\<close> that follow give the same answers on a number as on the float of it.
\<close>

definition int_to_float :: "int \<Rightarrow> py_error + rat" where
  "int_to_float i =
     (if 2 ^ 1024 - 2 ^ 970 \<le> \<bar>i\<bar> then Inl OverflowError else Inr (b64 (of_int i)))"

definition float_operand :: "pyval \<Rightarrow> py_error + rat" where
  "float_operand v =
     (case v of
        PFloat x txt \<Rightarrow> Inr x
      | PInt i \<Rightarrow> int_to_float i
      | PBool b \<Rightarrow> Inr (if b then 1 else 0)
      | _ \<Rightarrow> Inl TypeError)"

definition compute_final_readiness_call :: "pyval \<Rightarrow> pyval \<Rightarrow> py_error + rat" where
  "compute_final_readiness_call skill_match answer_quality =
     py_bind (float_operand skill_match) (\<lambda>sm.
     py_bind (float_operand answer_quality) (\<lambda>aq.
     Inr (compute_final_readiness sm aq)))"

section \<open>The store and the evaluation\<close>

text \<open>
  The store is the global list \<^verbatim>\<open>IDEAS\<close>; each route takes it and returns it with the
  response. An idea and an interest are the dictionaries that the routes build, as records.
\<close>

record evaluation =
  readiness_score :: rat
  skill_match_ratio :: rat
  answer_quality :: rat
  personality :: pyval
  team_fit :: pyval
  summary :: pyval

record builder =
  name :: pyval
  contact :: pyval
  email :: pyval
  builder_tech_stack :: "string list"
  years_of_experience :: pyval
  comments :: pyval

record interest = builder +
  interest_id :: nat
  answers :: pyval
  interest_evaluation :: evaluation

record idea =
  idea_id :: nat
  idea_title :: pyval
  problem_statement :: pyval
  solution_summary :: pyval
  tech_stack :: "string list"
  team_requirements :: pyval
  required_team_size :: int
  engagement_type :: pyval
  idea_notes :: pyval
  generated_questions :: pyval
  interests :: "interest list"

text \<open>
  \<^verbatim>\<open>
  def find_idea_index(idea_id):
      for idx, idea in enumerate(IDEAS):
          if idea["id"] == idea_id:
              return idx
      return None
  \<close>
\<close>

fun find_from :: "nat \<Rightarrow> nat \<Rightarrow> idea list \<Rightarrow> nat option" where
  "find_from wanted idx [] = None"
| "find_from wanted idx (idea # rest) =
     (if idea_id idea = wanted then Some idx else find_from wanted (Suc idx) rest)"

definition find_idea_index :: "nat \<Rightarrow> idea list \<Rightarrow> nat option" where
  "find_idea_index wanted IDEAS = find_from wanted 0 IDEAS"

text \<open>
  The two calls to the generative service, \<^verbatim>\<open>generate_questions\<close> and
  \<^verbatim>\<open>get_ai_personality\<close>, are outside the program: a route takes the outcome of its
  call, an exception or the value returned, as an argument.
  \<^verbatim>\<open>
  def evaluate_builder(idea, builder, questions, answers):
      skill_match = compute_skill_match(idea["tech_stack"], builder["tech_stack"])
      answer_quality = compute_answer_quality(answers)
      personality = get_ai_personality(idea, builder, questions, answers)
      readiness = compute_final_readiness(skill_match, answer_quality)
      return {
          "readiness_score": readiness,
          "skill_match_ratio": skill_match,
          "answer_quality": answer_quality,
          "personality": personality.get("personality", "unknown"),
          "team_fit": personality.get("team_fit", ""),
          "summary": personality.get("summary", "")
      }
  \<close>
\<close>

definition evaluate_builder ::
  "interpreter \<Rightarrow> idea \<Rightarrow> 'a builder_scheme \<Rightarrow> pyval \<Rightarrow> pyval \<Rightarrow> py_error + pyval \<Rightarrow> py_error + evaluation" where
  "evaluate_builder interp idea bld questions answs ai_personality =
     py_bind (compute_skill_match (PList (map PStr (tech_stack idea)))
                                  (PList (map PStr (builder_tech_stack bld)))) (\<lambda>skill_match.
     py_bind (compute_answer_quality interp answs) (\<lambda>quality.
     py_bind ai_personality (\<lambda>pers.
     let readiness = compute_final_readiness skill_match quality in
     py_bind (py_get pers ''personality'' (PStr ''unknown'')) (\<lambda>p.
     py_bind (py_get pers ''team_fit'' (PStr '''')) (\<lambda>t.
     py_bind (py_get pers ''summary'' (PStr '''')) (\<lambda>s.
     Inr \<lparr>readiness_score = readiness, skill_match_ratio = skill_match,
          answer_quality = quality, personality = p, team_fit = t, summary = s\<rparr>))))))"

section \<open>API routes\<close>

datatype response =
    MissingFields "string list"
  | TeamSizeMismatch
  | IdeaCreated idea
  | IdeaNotFound
  | Questions pyval
  | AnswerCountMismatch
  | InterestRecorded interest
  | Unhandled py_error

definition status_code :: "response \<Rightarrow> nat" where
  "status_code r =
     (case r of
        MissingFields missing \<Rightarrow> 400
      | TeamSizeMismatch \<Rightarrow> 400
      | IdeaCreated i \<Rightarrow> 201
      | IdeaNotFound \<Rightarrow> 404
      | Questions q \<Rightarrow> 200
      | AnswerCountMismatch \<Rightarrow> 400
      | InterestRecorded i \<Rightarrow> 201
      | Unhandled e \<Rightarrow> 500)"

definition missing_fields :: "string list \<Rightarrow> (string \<times> pyval) list \<Rightarrow> string list" where
  "missing_fields required data = [f \<leftarrow> required. map_of data f = None]"

text \<open>
  \<^verbatim>\<open>
  @app.route("/api/idea/post", methods=["POST"])
  def post_idea():
      data = request.get_json()
      required_fields = [
          "idea_title", "problem_statement", "solution_summary",
          "tech_stack", "team_requirements", "engagement_type",
          "required_team_size"
      ]
      missing = [f for f in required_fields if f not in data]
      if missing:
          return jsonify({"error": "Missing fields", "missing": missing}), 400
      required_team = int(data["required_team_size"])
      total_team = sum(int(i.get("count", 0)) for i in data["team_requirements"])
      if total_team != required_team:
          return jsonify({"error": "Team size mismatch"}), 400
      idea = {
          "id": len(IDEAS) + 1,
          "idea_title": data["idea_title"],
          "problem_statement": data["problem_statement"],
          "solution_summary": data["solution_summary"],
          "tech_stack": normalize_tech_stack(data["tech_stack"]),
          "team_requirements": data["team_requirements"],
          "required_team_size": required_team,
          "engagement_type": data["engagement_type"],
          "notes": data.get("notes", ""),
          "generated_questions": [],
          "interests": []
      }
      IDEAS.append(idea)
      return jsonify({"message": "Idea created", "idea": idea}), 201
  \<close>
  The request body \<open>data\<close> is a JSON object. An exception that escapes the handler leaves
  the store as it was and is answered with status 500.
\<close>

definition required_fields :: "string list" where
  "required_fields =
     [''idea_title'', ''problem_statement'', ''solution_summary'',
      ''tech_stack'', ''team_requirements'', ''engagement_type'',
      ''required_team_size'']"

text \<open>The generator \<^verbatim>\<open>int(i.get("count", 0)) for i in ...\<close> under \<^verbatim>\<open>sum\<close>.\<close>

fun team_total :: "pyval list \<Rightarrow> int \<Rightarrow> py_error + int" where
  "team_total [] acc = Inr acc"
| "team_total (i # rest) acc =
     py_bind (py_get i ''count'' (PInt 0)) (\<lambda>c.
     py_bind (py_int c) (\<lambda>n. team_total rest (acc + n)))"

definition post_idea_run ::
  "(string \<times> pyval) list \<Rightarrow> idea list \<Rightarrow> py_error + response \<times> idea list" where
  "post_idea_run data IDEAS =
     py_bind (getitem data ''required_team_size'') (\<lambda>size.
     py_bind (py_int size) (\<lambda>required_team.
     py_bind (getitem data ''team_requirements'') (\<lambda>reqs.
     py_bind (py_iter reqs) (\<lambda>items.
     py_bind (team_total items 0) (\<lambda>total_team.
     if total_team \<noteq> required_team then Inr (TeamSizeMismatch, IDEAS)
     else
       py_bind (getitem data ''idea_title'') (\<lambda>title.
       py_bind (getitem data ''problem_statement'') (\<lambda>problem.
       py_bind (getitem data ''solution_summary'') (\<lambda>solution.
       py_bind (getitem data ''tech_stack'') (\<lambda>stack.
       py_bind (getitem data ''team_requirements'') (\<lambda>team.
       py_bind (getitem data ''engagement_type'') (\<lambda>engagement.
       let idea = \<lparr>idea_id = length IDEAS + 1,
                   idea_title = title,
                   problem_statement = problem,
                   solution_summary = solution,
                   tech_stack = normalize_tech_stack stack,
                   team_requirements = team,
                   required_team_size = required_team,
                   engagement_type = engagement,
                   idea_notes = get_default data ''notes'' (PStr ''''),
                   generated_questions = PList [],
                   interests = []\<rparr>
       in Inr (IdeaCreated idea, IDEAS @ [idea]))))))))))))"

definition post_idea :: "(string \<times> pyval) list \<Rightarrow> idea list \<Rightarrow> response \<times> idea list" where
  "post_idea data IDEAS =
     (let missing = missing_fields required_fields data
      in if missing \<noteq> [] then (MissingFields missing, IDEAS)
         else case post_idea_run data IDEAS of
                Inl e \<Rightarrow> (Unhandled e, IDEAS)
              | Inr result \<Rightarrow> result)"

text \<open>
  \<^verbatim>\<open>
  @app.route("/api/idea/<int:idea_id>/generate-questions", methods=["POST"])
  def gen_q(idea_id):
      idx = find_idea_index(idea_id)
      if idx is None:
          return jsonify({"error": "Idea not found"}), 404
      q = generate_questions(IDEAS[idx])
      IDEAS[idx]["generated_questions"] = q
      return jsonify({"questions": q})
  \<close>
\<close>

definition gen_q :: "nat \<Rightarrow> py_error + pyval \<Rightarrow> idea list \<Rightarrow> response \<times> idea list" where
  "gen_q wanted ai_questions IDEAS =
     (case find_idea_index wanted IDEAS of
        None \<Rightarrow> (IdeaNotFound, IDEAS)
      | Some idx \<Rightarrow>
          (case ai_questions of
             Inl e \<Rightarrow> (Unhandled e, IDEAS)
           | Inr q \<Rightarrow> (Questions q, IDEAS[idx := (IDEAS ! idx)\<lparr>generated_questions := q\<rparr>])))"

text \<open>
  \<^verbatim>\<open>
  @app.route("/api/idea/<int:idea_id>/interest", methods=["POST"])
  def submit_interest(idea_id):
      idx = find_idea_index(idea_id)
      if idx is None:
          return jsonify({"error": "Idea not found"}), 404
      data = request.get_json()
      required = ["name", "contact", "email", "tech_stack", "years_of_experience", "answers"]
      missing = [f for f in required if f not in data]
      if missing:
          return jsonify({"error": "Missing fields", "missing": missing}), 400
      idea = IDEAS[idx]
      questions = idea["generated_questions"]
      answers = data["answers"]
      if len(questions) != len(answers):
          return jsonify({"error": "Answer count mismatch"}), 400
      builder = {
          "name": data["name"],
          "contact": data["contact"],
          "email": data["email"],
          "tech_stack": normalize_tech_stack(data["tech_stack"]),
          "years_of_experience": data["years_of_experience"],
          "comments": data.get("comments", "")
      }
      evaluation = evaluate_builder(idea, builder, questions, answers)
      interest = {
          "interest_id": len(idea["interests"]) + 1,
          **builder,
          "answers": answers,
          "evaluation": evaluation
      }
      idea["interests"].append(interest)
      return jsonify({"message": "Interest recorded", "interest": interest, ...}), 201
  \<close>
  \<open>idea\<close> is the object at \<open>IDEAS[idx]\<close>, so the append changes the store at that index.
\<close>

definition required :: "string list" where
  "required = [''name'', ''contact'', ''email'', ''tech_stack'', ''years_of_experience'', ''answers'']"

definition submit_interest_run ::
  "interpreter \<Rightarrow> nat \<Rightarrow> (string \<times> pyval) list \<Rightarrow> py_error + pyval \<Rightarrow> idea list
     \<Rightarrow> py_error + response \<times> idea list" where
  "submit_interest_run interp idx data ai_personality IDEAS =
     (let idea = IDEAS ! idx; questions = generated_questions idea in
      py_bind (getitem data ''answers'') (\<lambda>answs.
      py_bind (py_len questions) (\<lambda>n_questions.
      py_bind (py_len answs) (\<lambda>n_answers.
      if n_questions \<noteq> n_answers then Inr (AnswerCountMismatch, IDEAS)
      else
        py_bind (getitem data ''name'') (\<lambda>nm.
        py_bind (getitem data ''contact'') (\<lambda>ct.
        py_bind (getitem data ''email'') (\<lambda>em.
        py_bind (getitem data ''tech_stack'') (\<lambda>stack.
        py_bind (getitem data ''years_of_experience'') (\<lambda>years.
        let bld = \<lparr>name = nm, contact = ct, email = em,
                    builder_tech_stack = normalize_tech_stack stack,
                    years_of_experience = years,
                    comments = get_default data ''comments'' (PStr '''')\<rparr>
        in
        py_bind (evaluate_builder interp idea bld questions answs ai_personality) (\<lambda>ev.
        let intr = \<lparr>name = name bld, contact = contact bld, email = email bld,
                     builder_tech_stack = builder_tech_stack bld,
                     years_of_experience = years_of_experience bld,
                     comments = comments bld,
                     interest_id = length (interests idea) + 1,
                     answers = answs,
                     interest_evaluation = ev\<rparr>
        in Inr (InterestRecorded intr,
                IDEAS[idx := idea\<lparr>interests := interests idea @ [intr]\<rparr>])))))))))))"

definition submit_interest ::
  "interpreter \<Rightarrow> nat \<Rightarrow> (string \<times> pyval) list \<Rightarrow> py_error + pyval \<Rightarrow> idea list
     \<Rightarrow> response \<times> idea list" where
  "submit_interest interp wanted data ai_personality IDEAS =
     (case find_idea_index wanted IDEAS of
        None \<Rightarrow> (IdeaNotFound, IDEAS)
      | Some idx \<Rightarrow>
          (let missing = missing_fields required data
           in if missing \<noteq> [] then (MissingFields missing, IDEAS)
              else case submit_interest_run interp idx data ai_personality IDEAS of
                     Inl e \<Rightarrow> (Unhandled e, IDEAS)
                   | Inr result \<Rightarrow> result))"

text \<open>The states of the store that the three routes can reach from the empty list, on one
  interpreter.\<close>

inductive reachable :: "interpreter \<Rightarrow> idea list \<Rightarrow> bool" for interp where
  start: "reachable interp []"
| posted: "reachable interp IDEAS \<Longrightarrow> reachable interp (snd (post_idea data IDEAS))"
| questioned: "reachable interp IDEAS \<Longrightarrow> reachable interp (snd (gen_q wanted ai_questions IDEAS))"
| submitted:
    "reachable interp IDEAS
     \<Longrightarrow> reachable interp (snd (submit_interest interp wanted data ai_personality IDEAS))"

section \<open>Example requests\<close>

text \<open>A well-formed idea submission whose tech stack names Python twice, and an interest
  in it with no answers, as an idea has no questions until they are generated.\<close>

definition example_idea :: "(string \<times> pyval) list" where
  "example_idea =
     [(''idea_title'', PStr ''Tutor''),
      (''problem_statement'', PStr ''Homework is hard''),
      (''solution_summary'', PStr ''A tutor that explains''),
      (''tech_stack'', PStr ''Python, python''),
      (''team_requirements'', PList [PDict [(''role'', PStr ''dev''), (''count'', PInt 2)]]),
      (''engagement_type'', PStr ''part-time''),
      (''required_team_size'', PInt 2)]"

definition example_interest :: "pyval \<Rightarrow> (string \<times> pyval) list" where
  "example_interest answs =
     [(''name'', PStr ''Ada''),
      (''contact'', PStr ''555''),
      (''email'', PStr ''ada@example.org''),
      (''tech_stack'', PList [PStr ''python'', PStr ''Go'']),
      (''years_of_experience'', PInt 3),
      (''answers'', answs)]"

definition example_questions :: pyval where
  "example_questions = PList [PStr ''Why this idea?'', PStr ''What have you built?'']"

definition example_store :: "idea list" where
  "example_store = snd (gen_q 1 (Inr example_questions) (snd (post_idea example_idea [])))"

definition example_created :: "nat \<Rightarrow> idea" where
  "example_created n =
     \<lparr>idea_id = n,
      idea_title = PStr ''Tutor'',
      problem_statement = PStr ''Homework is hard'',
      solution_summary = PStr ''A tutor that explains'',
      tech_stack = [''Python'', ''python''],
      team_requirements = PList [PDict [(''role'', PStr ''dev''), (''count'', PInt 2)]],
      required_team_size = 2,
      engagement_type = PStr ''part-time'',
      idea_notes = PStr '''',
      generated_questions = PList [],
      interests = []\<rparr>"

definition example_three :: "idea list" where
  "example_three =
     snd (post_idea example_idea (snd (post_idea example_idea (snd (post_idea example_idea [])))))"

section \<open>The answer rule as the specification words it\<close>

text \<open>
  The specification scores one answer by this rule: lower-case and trim the answer; a text
  that contains a low-effort phrase scores 0.0, else a text shorter than 20 characters
  scores 0.2, else one shorter than 50 scores 0.5, else 0.9. This definition follows those
  words; \<open>answer_scores\<close> above follows the loop of the source.
\<close>

definition spec_answer_score :: "string \<Rightarrow> rat" where
  "spec_answer_score a =
     (let t = py_strip (py_lower a)
      in if list_ex (\<lambda>tok. py_in tok t) bad_tokens then 0
         else if length t < 20 then b64 (2 / 10)
         else if length t < 50 then 5 / 10
         else b64 (9 / 10))"

section \<open>Properties of the normalizer\<close>

lemma normalize_tech_stack_list:
  "normalize_tech_stack (PList vs) = filter (\<lambda>t. t \<noteq> []) (map (\<lambda>v. py_strip (py_str v)) vs)"
  by (induction vs) (simp_all add: normalize_tech_stack_def)

lemma normalize_tech_stack_str:
  "normalize_tech_stack (PStr s) = filter (\<lambda>t. t \<noteq> []) (map py_strip (py_split CHR '','' s))"
proof -
  have "concat (map (\<lambda>v. if py_strip v \<noteq> [] then [py_strip v] else []) ts) =
        filter (\<lambda>t. t \<noteq> []) (map py_strip ts)" for ts
    by (induction ts) simp_all
  then show ?thesis
    by (simp add: normalize_tech_stack_def)
qed

lemma py_strip_idem: "py_strip (py_strip s) = py_strip s"
proof -
  define u where "u = dropWhile py_isspace s"
  define w where "w = dropWhile py_isspace (rev u)"
  have u: "u = rev w @ rev (takeWhile py_isspace (rev u))"
  proof -
    have "rev u = takeWhile py_isspace (rev u) @ w"
      by (simp add: w_def)
    then have "rev (rev u) = rev (takeWhile py_isspace (rev u) @ w)"
      by (rule arg_cong)
    then show ?thesis by simp
  qed
  have a: "dropWhile py_isspace (rev w) = rev w"
  proof (cases "w = []")
    case True
    then show ?thesis by simp
  next
    case False
    then have "hd (rev w) = hd u" using u by (metis hd_append2 rev_is_Nil_conv)
    moreover have "u \<noteq> []" using False u by auto
    then have "\<not> py_isspace (hd u)" unfolding u_def by (rule hd_dropWhile)
    ultimately show ?thesis
      using False by (simp add: dropWhile_eq_self_iff)
  qed
  have b: "dropWhile py_isspace w = w"
    unfolding w_def by (rule dropWhile_idem)
  have "py_strip s = rev w"
    by (simp add: py_strip_def u_def w_def)
  moreover have "py_strip (rev w) = rev w"
    by (simp add: py_strip_def a b)
  ultimately show ?thesis by simp
qed

lemma normalize_tech_stack_tokens:
  "[] \<notin> set (normalize_tech_stack v) \<and> list_all (\<lambda>t. py_strip t = t) (normalize_tech_stack v)"
  by (cases v)
     (auto simp: normalize_tech_stack_list normalize_tech_stack_str normalize_tech_stack_def
         list_all_iff py_strip_idem)

text \<open>
  C5. Given a list, the normalizer converts each element to text, strips it and drops the
  empty results; given a text, it splits on commas first, then strips each token and drops
  the empty ones; every other shape gives the empty list. No token of the result is empty
  or has a blank at either end. The surviving tokens keep their order and duplicates stay: \<open>normalize("a, b ,,c") = ["a","b","c"]\<close>,
  \<open>normalize(["x "," ","y"]) = ["x","y"]\<close>, \<open>normalize(None) = []\<close>.
\<close>

theorem normalize_tech_stack_contract:
  "normalize_tech_stack (PList vs) = filter (\<lambda>t. t \<noteq> []) (map (\<lambda>v. py_strip (py_str v)) vs)
   \<and> normalize_tech_stack (PStr s) = filter (\<lambda>t. t \<noteq> []) (map py_strip (py_split CHR '','' s))
   \<and> normalize_tech_stack PNone = []
   \<and> normalize_tech_stack (PBool b) = []
   \<and> normalize_tech_stack (PInt i) = []
   \<and> normalize_tech_stack (PFloat x txt) = []
   \<and> normalize_tech_stack (PDict kvs) = []
   \<and> normalize_tech_stack (PStr ''a, b ,,c'') = [''a'', ''b'', ''c'']
   \<and> normalize_tech_stack (PList [PStr ''x '', PStr '' '', PStr ''y'']) = [''x'', ''y'']
   \<and> normalize_tech_stack (PList [PStr ''b'', PStr ''a'', PStr '' b'']) = [''b'', ''a'', ''b'']
   \<and> [] \<notin> set (normalize_tech_stack v)
   \<and> list_all (\<lambda>t. py_strip t = t) (normalize_tech_stack v)"
proof -
  have other: "normalize_tech_stack PNone = []" "normalize_tech_stack (PBool b) = []"
    "normalize_tech_stack (PInt i) = []" "normalize_tech_stack (PFloat x txt) = []"
    "normalize_tech_stack (PDict kvs) = []"
    by (simp_all add: normalize_tech_stack_def)
  have ex1: "normalize_tech_stack (PStr ''a, b ,,c'') = [''a'', ''b'', ''c'']"
    by code_simp
  have ex2: "normalize_tech_stack (PList [PStr ''x '', PStr '' '', PStr ''y'']) = [''x'', ''y'']"
    by code_simp
  have ex3: "normalize_tech_stack (PList [PStr ''b'', PStr ''a'', PStr '' b'']) = [''b'', ''a'', ''b'']"
    by code_simp
  show ?thesis
    using normalize_tech_stack_list [of vs] normalize_tech_stack_str [of s] other ex1 ex2 ex3
      normalize_tech_stack_tokens [of v]
    by blast
qed

section \<open>Rounding to binary64 is monotone\<close>

lemma round_half_even_of_int: "round_half_even (of_int n) = n"
  by (simp add: round_half_even_def)

lemma round_half_even_bounds: "\<lfloor>y\<rfloor> \<le> round_half_even y \<and> round_half_even y \<le> \<lfloor>y\<rfloor> + 1"
  by (simp add: round_half_even_def Let_def)

lemma round_half_even_mono:
  assumes "a \<le> b"
  shows "round_half_even a \<le> round_half_even b"
proof (cases "\<lfloor>a\<rfloor> = \<lfloor>b\<rfloor>")
  case True
  with assms show ?thesis
    by (auto simp: round_half_even_def Let_def)
next
  case False
  with assms have "\<lfloor>a\<rfloor> < \<lfloor>b\<rfloor>"
    using floor_mono [of a b] by linarith
  then show ?thesis
    using round_half_even_bounds [of a] round_half_even_bounds [of b] by linarith
qed

lemma ilog2_bounds:
  assumes "x \<noteq> 0"
  shows "2 powi (ilog2 x) \<le> \<bar>x\<bar> \<and> \<bar>x\<bar> < 2 powi (ilog2 x + 1)"
proof -
  obtain p q where pq: "quotient_of \<bar>x\<bar> = (p, q)"
    by (cases "quotient_of \<bar>x\<bar>")
  have q: "0 < q" using pq by (rule quotient_of_denom_pos)
  have x: "\<bar>x\<bar> = of_int p / of_int q" using pq by (rule quotient_of_div)
  have "0 < \<bar>x\<bar>" using assms by simp
  with x q have p: "0 < p"
    by (simp add: zero_less_divide_iff)
  define bp where "bp = floorlog 2 (nat p)"
  define bq where "bq = floorlog 2 (nat q)"
  have bp: "2 ^ (bp - 1) \<le> nat p \<and> nat p < 2 ^ bp"
    unfolding bp_def using p by (intro floorlog_bounds) auto
  have bq: "2 ^ (bq - 1) \<le> nat q \<and> nat q < 2 ^ bq"
    unfolding bq_def using q by (intro floorlog_bounds) auto
  have bp1: "1 \<le> bp" unfolding bp_def using p by (simp add: floorlog_def)
  have bq1: "1 \<le> bq" unfolding bq_def using q by (simp add: floorlog_def)
  have P: "(2::rat) ^ (bp - 1) \<le> of_int p \<and> (of_int p :: rat) < 2 ^ bp"
  proof -
    have "(of_nat (2 ^ (bp - 1)) :: rat) \<le> of_nat (nat p) \<and> (of_nat (nat p) :: rat) < of_nat (2 ^ bp)"
      using bp by (simp only: of_nat_le_iff of_nat_less_iff)
    then show ?thesis using p by simp
  qed
  have Q: "(2::rat) ^ (bq - 1) \<le> of_int q \<and> (of_int q :: rat) < 2 ^ bq"
  proof -
    have "(of_nat (2 ^ (bq - 1)) :: rat) \<le> of_nat (nat q) \<and> (of_nat (nat q) :: rat) < of_nat (2 ^ bq)"
      using bq by (simp only: of_nat_le_iff of_nat_less_iff)
    then show ?thesis using q by simp
  qed
  define d where "d = int bp - int bq"
  have up: "\<bar>x\<bar> < 2 powi (d + 1)"
  proof -
    have "d + 1 = int bp - int (bq - 1)" using bq1 by (simp add: d_def)
    then have "(2::rat) powi (d + 1) = 2 ^ bp / 2 ^ (bq - 1)"
      by (simp add: power_int_diff del: of_nat_diff)
    moreover have "of_int p / of_int q < (2::rat) ^ bp / 2 ^ (bq - 1)"
      using P Q p q by (intro frac_less) auto
    ultimately show ?thesis using x by simp
  qed
  have lo: "2 powi (d - 1) \<le> \<bar>x\<bar>"
  proof -
    have "d - 1 = int (bp - 1) - int bq" using bp1 by (simp add: d_def)
    then have "(2::rat) powi (d - 1) = 2 ^ (bp - 1) / 2 ^ bq"
      by (simp add: power_int_diff del: of_nat_diff)
    moreover have "(2::rat) ^ (bp - 1) / 2 ^ bq \<le> of_int p / of_int q"
      using P Q p q by (intro frac_le) auto
    ultimately show ?thesis using x by simp
  qed
  have e: "ilog2 x = (if 2 powi d \<le> \<bar>x\<bar> then d else d - 1)"
    by (simp add: ilog2_def pq bp_def bq_def d_def bitlen_def Let_def)
  show ?thesis
  proof (cases "2 powi d \<le> \<bar>x\<bar>")
    case True
    with e up show ?thesis by simp
  next
    case False
    with e lo show ?thesis by simp
  qed
qed

lemma ilog2_mono:
  assumes "0 < x" "x \<le> y"
  shows "ilog2 x \<le> ilog2 y"
proof (rule ccontr)
  assume "\<not> ilog2 x \<le> ilog2 y"
  then have "ilog2 y + 1 \<le> ilog2 x" by simp
  then have "(2::rat) powi (ilog2 y + 1) \<le> 2 powi (ilog2 x)"
    by (intro power_int_increasing) auto
  moreover have "2 powi (ilog2 x) \<le> \<bar>x\<bar>" using ilog2_bounds [of x] assms by simp
  moreover have "\<bar>y\<bar> < 2 powi (ilog2 y + 1)" using ilog2_bounds [of y] assms by simp
  ultimately show False using assms by simp
qed

lemma quantum_pos: "0 < quantum x"
  by (simp add: quantum_def)

lemma b64_quantum: "x \<noteq> 0 \<Longrightarrow> b64 x = of_int (round_half_even (x / quantum x)) * quantum x"
  by (simp add: b64_def)

lemma b64_nonneg:
  assumes "0 \<le> x"
  shows "0 \<le> b64 x"
proof (cases "x = 0")
  case True
  then show ?thesis by (simp add: b64_def)
next
  case False
  have "0 \<le> x / quantum x" using assms quantum_pos [of x] by simp
  then have "round_half_even 0 \<le> round_half_even (x / quantum x)"
    by (rule round_half_even_mono)
  then have "0 \<le> round_half_even (x / quantum x)"
    using round_half_even_of_int [of 0] by simp
  then show ?thesis
    using False quantum_pos [of x] by (simp add: b64_quantum)
qed

lemma b64_le_pow:
  assumes "0 < x"
  shows "b64 x \<le> 2 powi (max (ilog2 x) (- 1022) + 1)"
proof -
  define e where "e = max (ilog2 x) (- 1022)"
  have q: "quantum x = 2 powi (e - 52)" by (simp add: quantum_def e_def)
  have "x < 2 powi (ilog2 x + 1)" using ilog2_bounds [of x] assms by simp
  also have "\<dots> \<le> 2 powi (e + 1)"
    by (intro power_int_increasing) (auto simp: e_def)
  finally have "x / quantum x \<le> 2 powi (e + 1) / quantum x"
    using quantum_pos [of x] by (simp add: divide_right_mono)
  also have "2 powi (e + 1) / quantum x = (2::rat) powi 53"
    unfolding q by (subst power_int_diff [symmetric]) auto
  also have "(2::rat) powi 53 = of_int (2 ^ 53)"
    by (simp add: power_int_def)
  finally have "round_half_even (x / quantum x) \<le> round_half_even (of_int (2 ^ 53))"
    by (rule round_half_even_mono)
  then have "round_half_even (x / quantum x) \<le> 2 ^ 53"
    by (simp only: round_half_even_of_int)
  then have "(of_int (round_half_even (x / quantum x)) :: rat) \<le> of_int (2 ^ 53)"
    by (simp only: of_int_le_iff)
  then have "of_int (round_half_even (x / quantum x)) * quantum x \<le> of_int (2 ^ 53) * quantum x"
    using quantum_pos [of x] by (intro mult_right_mono) auto
  also have "of_int (2 ^ 53) * quantum x = (2::rat) powi 53 * 2 powi (e - 52)"
    unfolding q by (simp add: power_int_def)
  also have "\<dots> = 2 powi (e + 1)"
  proof -
    have "53 + (e - 52) = e + 1" by simp
    then show ?thesis
      using power_int_add [of "2::rat" 53 "e - 52"] by (simp only: ) simp
  qed
  finally show ?thesis
    using assms by (simp add: b64_quantum e_def)
qed

lemma b64_ge_pow:
  assumes "0 < x" "- 1022 \<le> ilog2 x"
  shows "2 powi (ilog2 x) \<le> b64 x"
proof -
  define e where "e = ilog2 x"
  have q: "quantum x = 2 powi (e - 52)" using assms by (simp add: quantum_def e_def max_def)
  have "2 powi e \<le> x" using ilog2_bounds [of x] assms by (simp add: e_def)
  then have "2 powi e / quantum x \<le> x / quantum x"
    using quantum_pos [of x] by (simp add: divide_right_mono)
  moreover have "2 powi e / quantum x = (2::rat) powi 52"
    unfolding q by (subst power_int_diff [symmetric]) auto
  moreover have "(2::rat) powi 52 = of_int (2 ^ 52)"
    by (simp add: power_int_def)
  ultimately have "round_half_even (of_int (2 ^ 52)) \<le> round_half_even (x / quantum x)"
    by (metis round_half_even_mono)
  then have "2 ^ 52 \<le> round_half_even (x / quantum x)"
    by (simp only: round_half_even_of_int)
  then have "(of_int (2 ^ 52) :: rat) \<le> of_int (round_half_even (x / quantum x))"
    by (simp only: of_int_le_iff)
  then have "of_int (2 ^ 52) * quantum x \<le> of_int (round_half_even (x / quantum x)) * quantum x"
    using quantum_pos [of x] by (intro mult_right_mono) auto
  moreover have "of_int (2 ^ 52) * quantum x = (2::rat) powi 52 * 2 powi (e - 52)"
    unfolding q by (simp add: power_int_def)
  moreover have "(2::rat) powi 52 * 2 powi (e - 52) = 2 powi e"
    by (subst power_int_add [symmetric]) auto
  ultimately show ?thesis
    using assms by (simp add: b64_quantum e_def)
qed

lemma b64_mono:
  assumes "0 \<le> x" "x \<le> y"
  shows "b64 x \<le> b64 y"
proof (cases "x = 0")
  case True
  then show ?thesis using b64_nonneg [of y] assms by (simp add: b64_def)
next
  case False
  with assms have x: "0 < x" and y: "0 < y" by simp_all
  define ex where "ex = max (ilog2 x) (- 1022)"
  define ey where "ey = max (ilog2 y) (- 1022)"
  have le: "ex \<le> ey" using ilog2_mono [OF x assms(2)] by (simp add: ex_def ey_def)
  show ?thesis
  proof (cases "ex = ey")
    case True
    then have q: "quantum x = quantum y" by (simp add: quantum_def ex_def ey_def)
    have "x / quantum y \<le> y / quantum y"
      using assms quantum_pos [of y] by (simp add: divide_right_mono)
    then have "round_half_even (x / quantum y) \<le> round_half_even (y / quantum y)"
      by (rule round_half_even_mono)
    then have "(of_int (round_half_even (x / quantum y)) :: rat) \<le> of_int (round_half_even (y / quantum y))"
      by (simp only: of_int_le_iff)
    then have "of_int (round_half_even (x / quantum y)) * quantum y
        \<le> of_int (round_half_even (y / quantum y)) * quantum y"
      using quantum_pos [of y] by (intro mult_right_mono) auto
    then show ?thesis using x y q by (simp add: b64_quantum)
  next
    case False
    with le have lt: "ex < ey" by simp
    then have iy: "ilog2 y = ey" "- 1022 \<le> ilog2 y" by (auto simp: ex_def ey_def max_def split: if_splits)
    have "b64 x \<le> 2 powi (ex + 1)" using b64_le_pow [OF x] by (simp add: ex_def)
    also have "\<dots> \<le> 2 powi ey" using lt by (intro power_int_increasing) auto
    also have "\<dots> \<le> b64 y" using b64_ge_pow [OF y iy(2)] iy(1) by simp
    finally show ?thesis .
  qed
qed

lemma round_half_even_nonneg: "0 \<le> y \<Longrightarrow> 0 \<le> round_half_even y"
  using round_half_even_mono [of 0 y] round_half_even_of_int [of 0] by simp

lemma py_round_mono:
  assumes "0 \<le> x" "x \<le> y"
  shows "py_round x n \<le> py_round y n"
proof -
  have "x * 10 ^ n \<le> y * 10 ^ n" using assms by (simp add: mult_right_mono)
  then have "round_half_even (x * 10 ^ n) \<le> round_half_even (y * 10 ^ n)"
    by (rule round_half_even_mono)
  then have "(of_int (round_half_even (x * 10 ^ n)) :: rat) / 10 ^ n
      \<le> of_int (round_half_even (y * 10 ^ n)) / 10 ^ n"
    by (simp add: divide_right_mono)
  moreover have "0 \<le> (of_int (round_half_even (x * 10 ^ n)) :: rat) / 10 ^ n"
    using round_half_even_nonneg [of "x * 10 ^ n"] assms by simp
  ultimately show ?thesis
    unfolding py_round_def by (rule b64_mono [rotated])
qed

lemma float_mul_nonneg: "0 \<le> a \<Longrightarrow> 0 \<le> b \<Longrightarrow> 0 \<le> float_mul a b"
  by (simp add: float_mul_def b64_nonneg)

lemma float_add_nonneg: "0 \<le> a \<Longrightarrow> 0 \<le> b \<Longrightarrow> 0 \<le> float_add a b"
  by (simp add: float_add_def b64_nonneg)

lemma float_mul_mono:
  "0 \<le> a \<Longrightarrow> a \<le> a' \<Longrightarrow> 0 \<le> b \<Longrightarrow> b \<le> b' \<Longrightarrow> float_mul a b \<le> float_mul a' b'"
  unfolding float_mul_def by (intro b64_mono mult_mono) auto

lemma float_add_mono:
  "0 \<le> a \<Longrightarrow> a \<le> a' \<Longrightarrow> 0 \<le> b \<Longrightarrow> b \<le> b' \<Longrightarrow> float_add a b \<le> float_add a' b'"
  unfolding float_add_def by (intro b64_mono add_mono) auto

lemma py_isspace_lower: "py_isspace (py_lower_char c) = py_isspace c"
  by (auto simp: py_isspace_def py_lower_char_def Let_def)

lemma py_strip_lower: "py_strip (py_lower s) = py_lower (py_strip s)"
proof -
  have dw: "dropWhile py_isspace (map py_lower_char xs) = map py_lower_char (dropWhile py_isspace xs)" for xs
    by (induction xs) (simp_all add: py_isspace_lower)
  show ?thesis
    by (simp add: py_strip_def py_lower_def dw rev_map)
qed

lemma answer_scores_map:
  "answer_scores items scores = scores @ map (\<lambda>v. spec_answer_score (py_str v)) items"
  by (induction items arbitrary: scores)
     (simp_all add: spec_answer_score_def py_strip_lower Let_def)

lemma compute_answer_quality_nonempty:
  "compute_answer_quality interp (PList (a # as)) =
     Inr (py_round (b64 (py_sum interp (map (\<lambda>v. spec_answer_score (py_str v)) (a # as))
                          / b64 (of_nat (length (a # as))))) 2)"
  by (simp add: compute_answer_quality_def py_truthy_def py_iter_def answer_scores_map
      float_truediv_int_def Let_def del: answer_scores.simps)

lemma compute_answer_quality_empty: "compute_answer_quality interp (PList []) = Inr 0"
  by (simp add: compute_answer_quality_def py_truthy_def)

section \<open>The scores at the examples of the specification\<close>

lemma readiness_at_top:
  "compute_final_readiness 1 (b64 (9 / 10)) = b64 (96 / 10)"
proof -
  have aq: "b64 (9 / 10) = 8106479329266893 / 9007199254740992"
    by code_simp
  have c55: "b64 (55 / 100) = 2476979795053773 / 4503599627370496"
    by code_simp
  have c45: "b64 (45 / 100) = 8106479329266893 / 18014398509481984"
    by code_simp
  have m1: "float_mul 1 (2476979795053773 / 4503599627370496) = 2476979795053773 / 4503599627370496"
    by code_simp
  have m2: "float_mul (8106479329266893 / 9007199254740992) (8106479329266893 / 18014398509481984) = 1823957849085051 / 4503599627370496"
    by code_simp
  have base: "float_add (2476979795053773 / 4503599627370496) (1823957849085051 / 4503599627370496) = 537617205517353 / 562949953421312"
    by code_simp
  have score: "float_mul (537617205517353 / 562949953421312) 10 = 2688086027586765 / 281474976710656"
    by code_simp
  have res: "py_round (2688086027586765 / 281474976710656) 1 = 5404319552844595 / 562949953421312"
    by code_simp
  have lit: "b64 (96 / 10) = 5404319552844595 / 562949953421312"
    by code_simp
  show ?thesis
    unfolding compute_final_readiness_def Let_def aq c55 c45 m1 m2 base score res lit
    by simp
qed

lemma readiness_example:
  "compute_final_readiness (1 / 2) (b64 (9 / 10)) = b64 (68 / 10)"
proof -
  have aq: "b64 (9 / 10) = 8106479329266893 / 9007199254740992"
    by code_simp
  have c55: "b64 (55 / 100) = 2476979795053773 / 4503599627370496"
    by code_simp
  have c45: "b64 (45 / 100) = 8106479329266893 / 18014398509481984"
    by code_simp
  have m1: "float_mul (1 / 2) (2476979795053773 / 4503599627370496) = 2476979795053773 / 9007199254740992"
    by code_simp
  have m2: "float_mul (8106479329266893 / 9007199254740992) (8106479329266893 / 18014398509481984) = 1823957849085051 / 4503599627370496"
    by code_simp
  have base: "float_add (2476979795053773 / 9007199254740992) (1823957849085051 / 4503599627370496) = 6124895493223875 / 9007199254740992"
    by code_simp
  have score: "float_mul (6124895493223875 / 9007199254740992) 10 = 1914029841632461 / 281474976710656"
    by code_simp
  have res: "py_round (1914029841632461 / 281474976710656) 1 = 7656119366529843 / 1125899906842624"
    by code_simp
  have lit: "b64 (68 / 10) = 7656119366529843 / 1125899906842624"
    by code_simp
  show ?thesis
    unfolding compute_final_readiness_def Let_def aq c55 c45 m1 m2 base score res lit
    by simp
qed

lemma readiness_low_quality:
  "compute_final_readiness (b64 (8 / 10)) (b64 (1 / 10)) = 3"
proof -
  have sm: "b64 (8 / 10) = 3602879701896397 / 4503599627370496"
    by code_simp
  have aq: "b64 (1 / 10) = 3602879701896397 / 36028797018963968"
    by code_simp
  have c55: "b64 (55 / 100) = 2476979795053773 / 4503599627370496"
    by code_simp
  have c45: "b64 (45 / 100) = 8106479329266893 / 18014398509481984"
    by code_simp
  have m1: "float_mul (3602879701896397 / 4503599627370496) (2476979795053773 / 4503599627370496) = 3963167672086037 / 9007199254740992"
    by code_simp
  have m2: "float_mul (3602879701896397 / 36028797018963968) (8106479329266893 / 18014398509481984) = 6485183463413515 / 144115188075855872"
    by code_simp
  have base: "float_add (3963167672086037 / 9007199254740992) (6485183463413515 / 144115188075855872) = 8736983277098763 / 18014398509481984"
    by code_simp
  have score: "float_mul (8736983277098763 / 18014398509481984) 10 = 5460614548186727 / 1125899906842624"
    by code_simp
  have mn: "min ((5460614548186727 / 1125899906842624) :: rat) 3 = 3"
    by simp
  have res: "py_round 3 1 = 3"
    by code_simp
  show ?thesis
    unfolding compute_final_readiness_def Let_def sm aq c55 c45 m1 m2 base score mn res
    by simp
qed

lemma readiness_no_skill:
  "compute_final_readiness 0 (b64 (9 / 10)) = 5 / 2"
proof -
  have aq: "b64 (9 / 10) = 8106479329266893 / 9007199254740992"
    by code_simp
  have c55: "b64 (55 / 100) = 2476979795053773 / 4503599627370496"
    by code_simp
  have c45: "b64 (45 / 100) = 8106479329266893 / 18014398509481984"
    by code_simp
  have m1: "float_mul 0 (2476979795053773 / 4503599627370496) = 0"
    by code_simp
  have m2: "float_mul (8106479329266893 / 9007199254740992) (8106479329266893 / 18014398509481984) = 1823957849085051 / 4503599627370496"
    by code_simp
  have base: "float_add 0 (1823957849085051 / 4503599627370496) = 1823957849085051 / 4503599627370496"
    by code_simp
  have score: "float_mul (1823957849085051 / 4503599627370496) 10 = 1139973655678157 / 281474976710656"
    by code_simp
  have mn: "min ((1139973655678157 / 281474976710656) :: rat) (5 / 2) = 5 / 2"
    by simp
  have res: "py_round (5 / 2) 1 = 5 / 2"
    by code_simp
  show ?thesis
    unfolding compute_final_readiness_def Let_def aq c55 c45 m1 m2 base score mn res
    by simp
qed

lemma py_sum_agree:
  "py_sum_plain xs = r \<Longrightarrow> py_sum_compensated xs = r \<Longrightarrow> py_sum interp xs = r"
  by (simp add: py_sum_def)




lemma answer_quality_null:
  "compute_answer_quality interp (PList [PNone]) = Inr (b64 (2 / 10))"
proof -
  have sc: "answer_scores [PNone] [] = [3602879701896397 / 18014398509481984]"
    by code_simp
  have sm: "py_sum interp [3602879701896397 / 18014398509481984] = 3602879701896397 / 18014398509481984"
    by (rule py_sum_agree; code_simp)
  have dv: "float_truediv_int (3602879701896397 / 18014398509481984) 1 = Inr (3602879701896397 / 18014398509481984)"
    by code_simp
  have rd: "py_round (3602879701896397 / 18014398509481984) 2 = 3602879701896397 / 18014398509481984"
    by code_simp
  have lit: "b64 (2 / 10) = 3602879701896397 / 18014398509481984"
    by code_simp
  show ?thesis
    unfolding lit
    by (simp add: compute_answer_quality_def py_truthy_def py_iter_def Let_def sc sm dv rd
        del: answer_scores.simps)
qed

lemma answer_quality_mixed:
  "compute_answer_quality interp (PList [PBool True, PInt 42, PStr ''I have built several production Node backends over the past three years.'']) = Inr (b64 (43 / 100))"
proof -
  have sc: "answer_scores [PBool True, PInt 42, PStr ''I have built several production Node backends over the past three years.''] [] = [3602879701896397 / 18014398509481984, 3602879701896397 / 18014398509481984, 8106479329266893 / 9007199254740992]"
    by code_simp
  have sm: "py_sum interp [3602879701896397 / 18014398509481984, 3602879701896397 / 18014398509481984, 8106479329266893 / 9007199254740992] = 5854679515581645 / 4503599627370496"
    by (rule py_sum_agree; code_simp)
  have dv: "float_truediv_int (5854679515581645 / 4503599627370496) 3 = Inr (1951559838527215 / 4503599627370496)"
    by code_simp
  have rd: "py_round (1951559838527215 / 4503599627370496) 2 = 7746191359077253 / 18014398509481984"
    by code_simp
  have lit: "b64 (43 / 100) = 7746191359077253 / 18014398509481984"
    by code_simp
  show ?thesis
    unfolding lit
    by (simp add: compute_answer_quality_def py_truthy_def py_iter_def Let_def sc sm dv rd
        del: answer_scores.simps)
qed

text \<open>
  Rounding acts on the binary value of the mean. The scores 0.2, 0.5, 0.0 and 0.0 have the
  decimal mean 0.175; the float mean lies just below it, and the result is 0.17.
\<close>

lemma answer_quality_tie:
  "compute_answer_quality interp (PList [PStr ''Two years'', PStr ''I wrote a small parser once'', PStr ''idk'', PStr ''idk'']) = Inr (b64 (17 / 100))"
proof -
  have sc: "answer_scores [PStr ''Two years'', PStr ''I wrote a small parser once'', PStr ''idk'', PStr ''idk''] [] = [3602879701896397 / 18014398509481984, 1 / 2, 0, 0]"
    by code_simp
  have sm: "py_sum interp [3602879701896397 / 18014398509481984, 1 / 2, 0, 0] = 3152519739159347 / 4503599627370496"
    by (rule py_sum_agree; code_simp)
  have dv: "float_truediv_int (3152519739159347 / 4503599627370496) 4 = Inr (3152519739159347 / 18014398509481984)"
    by code_simp
  have rd: "py_round (3152519739159347 / 18014398509481984) 2 = 6124895493223875 / 36028797018963968"
    by code_simp
  have lit: "b64 (17 / 100) = 6124895493223875 / 36028797018963968"
    by code_simp
  show ?thesis
    unfolding lit
    by (simp add: compute_answer_quality_def py_truthy_def py_iter_def Let_def sc sm dv rd
        del: answer_scores.simps)
qed



lemma score_at_top:
  "float_mul (float_add (float_mul 1 (b64 (55 / 100))) (float_mul (b64 (9 / 10)) (b64 (45 / 100)))) 10
     = 2688086027586765 / 281474976710656"
proof -
  have aq: "b64 (9 / 10) = 8106479329266893 / 9007199254740992"
    by code_simp
  have c55: "b64 (55 / 100) = 2476979795053773 / 4503599627370496"
    by code_simp
  have c45: "b64 (45 / 100) = 8106479329266893 / 18014398509481984"
    by code_simp
  have m1: "float_mul 1 (2476979795053773 / 4503599627370496) = 2476979795053773 / 4503599627370496"
    by code_simp
  have m2: "float_mul (8106479329266893 / 9007199254740992) (8106479329266893 / 18014398509481984) = 1823957849085051 / 4503599627370496"
    by code_simp
  have base: "float_add (2476979795053773 / 4503599627370496) (1823957849085051 / 4503599627370496) = 537617205517353 / 562949953421312"
    by code_simp
  have score: "float_mul (537617205517353 / 562949953421312) 10 = 2688086027586765 / 281474976710656"
    by code_simp
  show ?thesis
    unfolding aq c55 c45 m1 m2 base score by (rule refl)
qed

lemma round_at_top: "py_round (2688086027586765 / 281474976710656) 1 = b64 (96 / 10)"
  by code_simp

lemma b64_consts: "b64 0 = 0" "b64 1 = 1" "b64 (5 / 2) = 5 / 2" "b64 3 = 3"
  "py_round (5 / 2) 1 = 5 / 2" "py_round 3 1 = 3" "0 \<le> b64 (55 / 100)" "0 \<le> b64 (45 / 100)"
  by code_simp+

lemma readiness_bound:
  assumes "0 \<le> sm" "sm \<le> 1" "0 \<le> aq" "aq \<le> b64 (9 / 10)"
  shows "compute_final_readiness sm aq \<le> b64 (96 / 10)"
proof -
  define score where
    "score = float_mul (float_add (float_mul sm (b64 (55 / 100))) (float_mul aq (b64 (45 / 100)))) 10"
  have s0: "0 \<le> score"
    unfolding score_def using assms
    by (intro float_mul_nonneg float_add_nonneg b64_consts) auto
  have "score \<le> float_mul (float_add (float_mul 1 (b64 (55 / 100)))
                                       (float_mul (b64 (9 / 10)) (b64 (45 / 100)))) 10"
    unfolding score_def using assms
    by (intro float_mul_mono float_add_mono float_mul_nonneg float_add_nonneg b64_consts) auto
  then have top: "score \<le> 2688086027586765 / 281474976710656"
    by (simp only: score_at_top)
  have r: "py_round a 1 \<le> b64 (96 / 10)" if "0 \<le> a" "a \<le> score" for a
  proof -
    have "py_round a 1 \<le> py_round (2688086027586765 / 281474976710656) 1"
      using that top by (intro py_round_mono) auto
    then show ?thesis by (simp only: round_at_top)
  qed
  have "compute_final_readiness sm aq =
      (if sm = 0 then py_round (min score (5 / 2)) 1
       else if aq < 25 / 100 then py_round (min score 3) 1
       else py_round score 1)"
    by (simp add: compute_final_readiness_def score_def Let_def)
  then show ?thesis
    using r [of "min score (5 / 2)"] r [of "min score 3"] r [of score] s0
    by (auto simp: min_def)
qed

section \<open>The readiness combiner\<close>

lemma readiness_unfold:
  "compute_final_readiness sm aq =
     (let score = float_mul (float_add (float_mul sm (b64 (55 / 100)))
                                       (float_mul aq (b64 (45 / 100)))) 10
      in py_round (if sm = 0 then min score (5 / 2)
                   else if aq < 1 / 4 then min score 3
                   else score) 1)"
  by (simp add: compute_final_readiness_def Let_def)

lemma score_nonneg:
  "0 \<le> sm \<Longrightarrow> 0 \<le> aq \<Longrightarrow>
   0 \<le> float_mul (float_add (float_mul sm (b64 (55 / 100))) (float_mul aq (b64 (45 / 100)))) 10"
  by (intro float_mul_nonneg float_add_nonneg b64_consts) auto

lemma readiness_cap_no_skill:
  assumes "0 \<le> aq"
  shows "compute_final_readiness 0 aq \<le> 5 / 2"
proof -
  define score where
    "score = float_mul (float_add (float_mul 0 (b64 (55 / 100))) (float_mul aq (b64 (45 / 100)))) 10"
  have "0 \<le> score" unfolding score_def using assms by (intro score_nonneg) auto
  then have "py_round (min score (5 / 2)) 1 \<le> py_round (5 / 2) 1"
    by (intro py_round_mono) auto
  then have le: "py_round (min score (5 / 2)) 1 \<le> 5 / 2"
    by (simp only: b64_consts)
  have "compute_final_readiness 0 aq = py_round (min score (5 / 2)) 1"
    by (simp add: readiness_unfold score_def)
  with le show ?thesis
    by (simp only: )
qed

lemma readiness_cap_low_quality:
  assumes "0 \<le> sm" "0 \<le> aq" "sm \<noteq> 0" "aq < 1 / 4"
  shows "compute_final_readiness sm aq \<le> 3"
proof -
  define score where
    "score = float_mul (float_add (float_mul sm (b64 (55 / 100))) (float_mul aq (b64 (45 / 100)))) 10"
  have "0 \<le> score" unfolding score_def using assms by (intro score_nonneg) auto
  then have "py_round (min score 3) 1 \<le> py_round 3 1"
    by (intro py_round_mono) auto
  then have le: "py_round (min score 3) 1 \<le> 3"
    by (simp only: b64_consts)
  have "compute_final_readiness sm aq = py_round (min score 3) 1"
    using assms by (simp add: readiness_unfold score_def)
  with le show ?thesis
    by (simp only: )
qed

text \<open>
  C1. The combiner computes \<open>base = skill_match * 0.55 + answer_quality * 0.45\<close> and
  \<open>score = base * 10\<close> in floating point, caps the score at 2.5 when the skill match is
  exactly 0, else at 3.0 when the answer quality is below 0.25, else leaves it, and returns
  the result rounded to one decimal. So the result is at most 2.5 in the first case and at
  most 3.0 in the second; with skill match 0.5 and answer quality 0.9 no cap applies and the
  result is 6.8, with skill match 0 and answer quality 0.9 it is 2.5, and with skill match
  0.8 and answer quality 0.1 it is 3.0.
\<close>

theorem compute_final_readiness_rule:
  "compute_final_readiness sm aq =
     (let score = float_mul (float_add (float_mul sm (b64 (55 / 100)))
                                       (float_mul aq (b64 (45 / 100)))) 10
      in py_round (if sm = 0 then min score (5 / 2)
                   else if aq < 1 / 4 then min score 3
                   else score) 1)
   \<and> (sm = 0 \<and> 0 \<le> aq \<longrightarrow> compute_final_readiness sm aq \<le> 5 / 2)
   \<and> (0 \<le> sm \<and> sm \<noteq> 0 \<and> 0 \<le> aq \<and> aq < 1 / 4 \<longrightarrow> compute_final_readiness sm aq \<le> 3)
   \<and> compute_final_readiness (1 / 2) (b64 (9 / 10)) = b64 (68 / 10)
   \<and> compute_final_readiness 0 (b64 (9 / 10)) = 5 / 2
   \<and> compute_final_readiness (b64 (8 / 10)) (b64 (1 / 10)) = 3"
  using readiness_unfold [of sm aq] readiness_cap_no_skill [of aq]
    readiness_cap_low_quality [of sm aq] readiness_example readiness_no_skill readiness_low_quality
  by blast

theorem compute_final_readiness_rule_witness:
  "((0::rat) = 0 \<and> 0 \<le> b64 (9 / 10) \<and> compute_final_readiness 0 (b64 (9 / 10)) \<le> 5 / 2)
   \<and> (0 \<le> b64 (8 / 10) \<and> b64 (8 / 10) \<noteq> 0 \<and> 0 \<le> b64 (1 / 10) \<and> b64 (1 / 10) < 1 / 4
        \<and> compute_final_readiness (b64 (8 / 10)) (b64 (1 / 10)) \<le> 3)"
proof -
  have a: "b64 (8 / 10) = 3602879701896397 / 4503599627370496"
    by code_simp
  have b: "b64 (1 / 10) = 3602879701896397 / 36028797018963968"
    by code_simp
  have "0 \<le> b64 (8 / 10) \<and> b64 (8 / 10) \<noteq> 0 \<and> 0 \<le> b64 (1 / 10) \<and> b64 (1 / 10) < 1 / 4"
    unfolding a b by simp
  moreover have "0 \<le> b64 (9 / 10)"
    by (simp add: b64_nonneg)
  ultimately show ?thesis
    using compute_final_readiness_rule [of 0 "b64 (9 / 10)"]
      compute_final_readiness_rule [of "b64 (8 / 10)" "b64 (1 / 10)"]
    by blast
qed

text \<open>
  C2, as amended. For a skill match in \<open>[0, 1]\<close> and an answer quality in \<open>[0, 0.9]\<close>
  the readiness score is at most 9.6, and 9.6 is returned at skill match 1.0 and answer
  quality 0.9, where the score before rounding is 9.55. The ceiling 9.25 that the
  specification states is exceeded there.
\<close>

theorem readiness_ceiling:
  "(0 \<le> sm \<and> sm \<le> 1 \<and> 0 \<le> aq \<and> aq \<le> b64 (9 / 10)
      \<longrightarrow> compute_final_readiness sm aq \<le> b64 (96 / 10))
   \<and> compute_final_readiness 1 (b64 (9 / 10)) = b64 (96 / 10)"
  using readiness_bound [of sm aq] readiness_at_top by blast

theorem readiness_ceiling_witness:
  "0 \<le> (1 / 2 :: rat) \<and> (1 / 2 :: rat) \<le> 1 \<and> 0 \<le> b64 (9 / 10) \<and> b64 (9 / 10) \<le> b64 (9 / 10)
   \<and> compute_final_readiness (1 / 2) (b64 (9 / 10)) \<le> b64 (96 / 10)"
proof -
  have "0 \<le> b64 (9 / 10)"
    by (simp add: b64_nonneg)
  moreover have "0 \<le> (1 / 2 :: rat) \<and> (1 / 2 :: rat) \<le> 1"
    by simp
  ultimately show ?thesis
    using readiness_ceiling [of "1 / 2" "b64 (9 / 10)"] by blast
qed

theorem readiness_above_stated_ceiling:
  "\<not> compute_final_readiness 1 (b64 (9 / 10)) \<le> 37 / 4"
proof -
  have "b64 (96 / 10) = 5404319552844595 / 562949953421312"
    by code_simp
  then show ?thesis
    by (simp add: readiness_at_top)
qed

section \<open>Direct calls that return\<close>

text \<open>
  A direct call returns what the definition on values gives, whenever every \<^verbatim>\<open>str\<close> in it
  returns.
\<close>

lemma py_sequence_Inr:
  "py_sequence rs = Inr xs \<longleftrightarrow> rs = map Inr xs"
proof (induction rs arbitrary: xs)
  case Nil
  show ?case by auto
next
  case (Cons r rs)
  show ?case
  proof (cases r)
    case (Inl e)
    then show ?thesis by (auto simp: py_bind_def)
  next
    case r: (Inr x)
    show ?thesis
    proof (cases "py_sequence rs")
      case (Inl e)
      with Cons.IH have "\<And>ys. rs \<noteq> map Inr ys" by auto
      with Inl r show ?thesis by (auto simp: py_bind_def)
    next
      case (Inr ys)
      with Cons.IH [of ys] have "rs = map Inr ys" by simp
      with Inr r show ?thesis by (auto simp: py_bind_def)
    qed
  qed
qed

lemma py_repr_call_Inr:
  "py_repr_call interp v n = Inr s \<Longrightarrow> s = py_repr v"
proof (induction v arbitrary: n s)
  case (PInt i)
  then show ?case
    by (auto simp: int_str_call_def int_str_def split: if_splits)
next
  case (PList vs)
  from PList.prems have n: "n \<noteq> 0" by (auto split: if_splits)
  with PList.prems obtain ts where
    ts: "py_sequence (map (\<lambda>r. r (n - 1)) (map (py_repr_call interp) vs)) = Inr ts"
    and s: "s = ''['' @ py_join '', '' ts @ '']''"
    by (auto simp: py_bind_def split: sum.splits)
  from ts have "map (\<lambda>v. py_repr_call interp v (n - 1)) vs = map Inr ts"
    by (simp add: py_sequence_Inr comp_def)
  then have "ts = map py_repr vs"
    using PList.IH
    by (induction vs arbitrary: ts) auto
  with s show ?case by simp
next
  case (PDict kvs)
  from PDict.prems have n: "n \<noteq> 0" by (auto split: if_splits)
  with PDict.prems obtain ts where
    ts: "py_sequence
           (map (\<lambda>(k, r). py_bind (r (n - 1)) (\<lambda>t. Inr (py_repr_str k @ '': '' @ t)))
                (map (map_prod id (py_repr_call interp)) kvs)) = Inr ts"
    and s: "s = ''{'' @ py_join '', '' ts @ ''}''"
    by (auto simp: py_bind_def split: sum.splits)
  from ts have
    "map (\<lambda>(k, v). py_bind (py_repr_call interp v (n - 1)) (\<lambda>t. Inr (py_repr_str k @ '': '' @ t))) kvs
       = map Inr ts"
    by (simp add: py_sequence_Inr comp_def split_def)
  then have "ts = map (\<lambda>(k, v). py_repr_str k @ '': '' @ py_repr v) kvs"
    using PDict.IH
  proof (induction kvs arbitrary: ts)
    case Nil
    then show ?case by simp
  next
    case (Cons kv kvs)
    obtain k v where kv: "kv = (k, v)" by (cases kv)
    from Cons.prems(1) obtain t ts' where t: "ts = t # ts'" by (cases ts) auto
    from Cons.prems(1) kv t have
      h: "py_bind (py_repr_call interp v (n - 1)) (\<lambda>t. Inr (py_repr_str k @ '': '' @ t)) = Inr t"
      and r: "map (\<lambda>(k, v). py_bind (py_repr_call interp v (n - 1))
                                (\<lambda>t. Inr (py_repr_str k @ '': '' @ t))) kvs = map Inr ts'"
      by auto
    from h obtain u where u: "py_repr_call interp v (n - 1) = Inr u" "t = py_repr_str k @ '': '' @ u"
      by (auto simp: py_bind_def split: sum.splits)
    have "u = py_repr v"
      using Cons.prems(2) [of kv v "n - 1" u] u(1) kv by simp
    moreover have "ts' = map (\<lambda>(k, v). py_repr_str k @ '': '' @ py_repr v) kvs"
      by (rule Cons.IH [OF r]) (rule Cons.prems(2), auto)
    ultimately show ?case by (simp add: t u kv)
  qed
  with s show ?case by (simp add: comp_def split_def)
qed (auto split: if_splits)

lemma py_str_call_Inr:
  assumes "py_str_call interp v = Inr s"
  shows "s = py_str v"
proof (cases "\<exists>t. v = PStr t")
  case True
  with assms show ?thesis
    by (auto simp: py_str_call_def py_str_def)
next
  case False
  then have "py_str_call interp v = py_repr_call interp v (repr_budget interp)"
    and "py_str v = py_repr v"
    by (cases v; simp add: py_str_call_def py_str_def)+
  with assms show ?thesis
    by (simp add: py_repr_call_Inr)
qed

lemma str_returns_eq:
  "str_returns interp v \<longleftrightarrow> py_str_call interp v = Inr (py_str v)"
  by (auto simp: str_returns_def dest: py_str_call_Inr split: sum.splits)

lemma str_returns_text: "str_returns interp (PStr s)"
  by (simp add: str_returns_def py_str_call_def)

lemma str_returns_atoms:
  "str_returns interp PNone = (repr_budget interp \<noteq> 0)"
  "str_returns interp (PBool b) = (repr_budget interp \<noteq> 0)"
  "str_returns interp (PFloat x txt) = (repr_budget interp \<noteq> 0)"
  "str_returns interp (PInt i) =
     (repr_budget interp \<noteq> 0
      \<and> (int_max_str_digits interp = 0
         \<or> length (nat_digits (nat \<bar>i\<bar>)) \<le> int_max_str_digits interp))"
  by (auto simp: str_returns_def py_str_call_def int_str_call_def)

lemma normalize_items_returns:
  "list_all (str_returns interp) vs \<Longrightarrow>
   normalize_items interp vs = Inr [py_strip (py_str v). v \<leftarrow> vs, py_strip (py_str v) \<noteq> []]"
  by (induction vs) (auto simp: str_returns_eq py_bind_def)

lemma normalize_tech_stack_call_returns:
  "list_all (str_returns interp) (str_operands v) \<Longrightarrow>
   normalize_tech_stack_call interp v = Inr (normalize_tech_stack v)"
  by (cases v)
     (auto simp: normalize_tech_stack_call_def normalize_tech_stack_def str_operands_def
                 normalize_items_returns)

lemma compute_skill_match_call_returns:
  assumes "list_all (str_returns interp) (str_operands i)"
    and "list_all (str_returns interp) (str_operands b)"
  shows "compute_skill_match_call interp i b = compute_skill_match i b"
  using assms
  by (simp add: compute_skill_match_call_def compute_skill_match_def
                normalize_tech_stack_call_returns py_bind_def Let_def)

lemma answer_scores_call_returns:
  "list_all (str_returns interp) items \<Longrightarrow>
   answer_scores_call interp items scores = Inr (answer_scores items scores)"
  by (induction items arbitrary: scores) (auto simp: str_returns_eq py_bind_def Let_def)

lemma compute_answer_quality_call_returns:
  assumes "list_all (str_returns interp) items"
  shows "compute_answer_quality_call interp (PList items) = compute_answer_quality interp (PList items)"
  using assms
  by (simp add: compute_answer_quality_call_def compute_answer_quality_def py_iter_def
                answer_scores_call_returns py_bind_def Let_def split: sum.splits)

section \<open>Direct calls that raise\<close>

text \<open>An integer of more digits than the limit makes \<^verbatim>\<open>str\<close> raise, and the scorer with it.\<close>

lemma nat_digits_long:
  "10 ^ L \<le> n \<Longrightarrow> L < length (nat_digits n)"
proof (induction L arbitrary: n)
  case 0
  show ?case by (subst nat_digits.simps) simp
next
  case (Suc L)
  from Suc.prems have "10 ^ L \<le> n div 10" by simp
  from Suc.IH [OF this] have "L < length (nat_digits (n div 10))" .
  moreover have "(10::nat) \<le> 10 ^ Suc L" by simp
  with Suc.prems have "\<not> n < 10" by linarith
  ultimately show ?case by (subst nat_digits.simps) simp
qed

lemma int_str_call_long:
  assumes "int_max_str_digits interp \<noteq> 0" and "10 ^ int_max_str_digits interp \<le> \<bar>i\<bar>"
  shows "int_str_call interp i = Inl ValueError"
proof -
  from assms(2) have "int (10 ^ int_max_str_digits interp) \<le> \<bar>i\<bar>"
    by simp
  then have "10 ^ int_max_str_digits interp \<le> nat \<bar>i\<bar>"
    by linarith
  then have "int_max_str_digits interp < length (nat_digits (nat \<bar>i\<bar>))"
    by (rule nat_digits_long)
  with assms(1) show ?thesis
    by (simp add: int_str_call_def)
qed

lemma py_str_call_long:
  assumes "int_max_str_digits interp \<noteq> 0" and "10 ^ int_max_str_digits interp \<le> \<bar>i\<bar>"
    and "repr_budget interp \<noteq> 0"
  shows "py_str_call interp (PInt i) = Inl ValueError"
  using assms by (simp add: py_str_call_def int_str_call_long)

lemma py_str_call_beyond_limit:
  "py_str_call (cpython_3_12 100) (PInt (10 ^ 4300)) = Inl ValueError"
proof (rule py_str_call_long)
  show "int_max_str_digits (cpython_3_12 100) \<noteq> 0"
    by (simp add: cpython_3_12_def)
  show "repr_budget (cpython_3_12 100) \<noteq> 0"
    by (simp add: cpython_3_12_def)
  have "int_max_str_digits (cpython_3_12 100) = 4300"
    by (simp add: cpython_3_12_def)
  then show "10 ^ int_max_str_digits (cpython_3_12 100) \<le> \<bar>10 ^ 4300 :: int\<bar>"
    by (simp only: abs_ge_self)
qed

lemma py_repr_call_exhausted: "py_repr_call interp v 0 = Inl RecursionError"
  by (cases v) simp_all

lemma normalize_tech_stack_call_raises:
  "py_str_call interp v = Inl e \<Longrightarrow> normalize_tech_stack_call interp (PList (v # vs)) = Inl e"
  by (simp add: normalize_tech_stack_call_def py_bind_def)

lemma compute_skill_match_call_raises:
  "normalize_tech_stack_call interp i = Inl e \<Longrightarrow> compute_skill_match_call interp i b = Inl e"
  by (simp add: compute_skill_match_call_def py_bind_def)

lemma compute_answer_quality_call_raises:
  "py_str_call interp v = Inl e \<Longrightarrow> compute_answer_quality_call interp (PList (v # vs)) = Inl e"
  by (simp add: compute_answer_quality_call_def py_truthy_def py_iter_def py_bind_def)

lemma compute_final_readiness_call_floats:
  "compute_final_readiness_call (PFloat sm t) (PFloat aq t') = Inr (compute_final_readiness sm aq)"
  by (simp add: compute_final_readiness_call_def float_operand_def py_bind_def)

lemma compute_final_readiness_call_not_a_number:
  "compute_final_readiness_call PNone aq = Inl TypeError"
  by (simp add: compute_final_readiness_call_def float_operand_def py_bind_def)

section \<open>The answer quality scorer\<close>


text \<open>
  C10. Every answer is converted to text with \<open>str\<close> before it is scored, so a non-empty
  list of answers of any type gets a score, by the length and phrase rule on the converted
  texts, when \<open>str\<close> returns on each of them. It returns on a text; on null, a boolean and
  a float when the recursion limit leaves room for the call; on an integer when moreover
  the integer has no more digits than the limit of the interpreter. A null answer becomes
  the text \<open>none\<close>, four characters, and scores 0.2; a boolean, a number and a long text
  together score 0.43.
\<close>

theorem compute_answer_quality_coerces:
  "(list_all (str_returns interp) (a # as) \<longrightarrow>
      compute_answer_quality_call interp (PList (a # as)) =
        Inr (py_round (b64 (py_sum interp (map (\<lambda>v. spec_answer_score (py_str v)) (a # as))
                             / b64 (of_nat (length (a # as))))) 2))
   \<and> str_returns interp (PStr s)
   \<and> str_returns interp PNone = (repr_budget interp \<noteq> 0)
   \<and> str_returns interp (PBool b) = (repr_budget interp \<noteq> 0)
   \<and> str_returns interp (PFloat x txt) = (repr_budget interp \<noteq> 0)
   \<and> str_returns interp (PInt i) =
       (repr_budget interp \<noteq> 0
        \<and> (int_max_str_digits interp = 0
           \<or> length (nat_digits (nat \<bar>i\<bar>)) \<le> int_max_str_digits interp))
   \<and> py_lower (py_strip (py_str PNone)) = ''none''
   \<and> spec_answer_score (py_str PNone) = b64 (2 / 10)
   \<and> (str_returns interp PNone \<longrightarrow>
        compute_answer_quality_call interp (PList [PNone]) = Inr (b64 (2 / 10)))
   \<and> (list_all (str_returns interp)
         [PBool True, PInt 42,
          PStr ''I have built several production Node backends over the past three years.''] \<longrightarrow>
        compute_answer_quality_call interp
          (PList [PBool True, PInt 42,
                  PStr ''I have built several production Node backends over the past three years.''])
         = Inr (b64 (43 / 100)))"
proof -
  have n: "py_lower (py_strip (py_str PNone)) = ''none''"
    by code_simp
  have "spec_answer_score ''None'' = b64 (2 / 10)"
    by code_simp
  then have s: "spec_answer_score (py_str PNone) = b64 (2 / 10)"
    by (simp add: py_str_def)
  have g: "list_all (str_returns interp) (a # as) \<longrightarrow>
      compute_answer_quality_call interp (PList (a # as)) =
        Inr (py_round (b64 (py_sum interp (map (\<lambda>v. spec_answer_score (py_str v)) (a # as))
                             / b64 (of_nat (length (a # as))))) 2)"
    using compute_answer_quality_call_returns [of interp "a # as"]
      compute_answer_quality_nonempty [of interp a as]
    by (simp only: implies_True_equals imp_conv_disj) auto
  have x1: "str_returns interp PNone \<longrightarrow>
        compute_answer_quality_call interp (PList [PNone]) = Inr (b64 (2 / 10))"
    using compute_answer_quality_call_returns [of interp "[PNone]"] answer_quality_null [of interp]
    by simp
  have x2: "list_all (str_returns interp)
         [PBool True, PInt 42,
          PStr ''I have built several production Node backends over the past three years.''] \<longrightarrow>
        compute_answer_quality_call interp
          (PList [PBool True, PInt 42,
                  PStr ''I have built several production Node backends over the past three years.''])
         = Inr (b64 (43 / 100))"
    using compute_answer_quality_call_returns
        [of interp "[PBool True, PInt 42,
          PStr ''I have built several production Node backends over the past three years.'']"]
      answer_quality_mixed [of interp]
    by (simp only:) blast
  show ?thesis
    using g str_returns_text [of interp s] str_returns_atoms [of interp] n s x1 x2 by blast
qed

theorem compute_answer_quality_coerces_witness:
  "list_all (str_returns (cpython_3_12 100))
     [PBool True, PInt 42,
      PStr ''I have built several production Node backends over the past three years.'']
   \<and> str_returns (cpython_3_12 100) PNone
   \<and> compute_answer_quality_call (cpython_3_12 100)
        (PList [PBool True, PInt 42,
                PStr ''I have built several production Node backends over the past three years.''])
       = Inr (b64 (43 / 100))
   \<and> compute_answer_quality_call (cpython_3_12 100) (PList [PNone]) = Inr (b64 (2 / 10))"
proof -
  have d: "length (nat_digits 42) = 2"
    by (simp add: nat_digits.simps)
  have h1: "list_all (str_returns (cpython_3_12 100))
     [PBool True, PInt 42,
      PStr ''I have built several production Node backends over the past three years.'']"
    by (simp add: str_returns_atoms str_returns_text d) (simp add: cpython_3_12_def)
  have h2: "str_returns (cpython_3_12 100) PNone"
    by (simp add: str_returns_atoms) (simp add: cpython_3_12_def)
  show ?thesis
    using compute_answer_quality_coerces
      [where interp = "cpython_3_12 100" and a = "PBool True"
         and as = "[PInt 42,
                    PStr ''I have built several production Node backends over the past three years.'']"]
      h1 h2
    by blast
qed

theorem compute_answer_quality_raises:
  "compute_answer_quality_call (cpython_3_12 100) (PList [PInt (10 ^ 4300)]) = Inl ValueError"
  by (rule compute_answer_quality_call_raises) (rule py_str_call_beyond_limit)

section \<open>The skill match scorer\<close>

lemma compute_skill_match_eq:
  "compute_skill_match i b =
     Inr (let idea_set = set (map py_lower (normalize_tech_stack i));
              builder_set = set (map py_lower (normalize_tech_stack b))
          in if idea_set = {} \<or> idea_set \<inter> builder_set = {} then 0
             else b64 (of_nat (card (idea_set \<inter> builder_set)) / of_nat (card idea_set)))"
proof -
  define I where "I = set (map py_lower (normalize_tech_stack i))"
  define B where "B = set (map py_lower (normalize_tech_stack b))"
  have fin: "finite I" by (simp add: I_def)
  have "(card I = 0) = (I = {})"
    using fin by simp
  then show ?thesis
    unfolding compute_skill_match_def int_truediv_def Let_def I_def [symmetric] B_def [symmetric]
    by auto
qed

lemma b64_ratio_range:
  assumes "m \<le> n" "0 < n"
  shows "0 \<le> b64 (of_nat m / of_nat n) \<and> b64 (of_nat m / of_nat n) \<le> 1"
proof -
  have "(of_nat m :: rat) / of_nat n \<le> 1"
    using assms by simp
  moreover have "0 \<le> (of_nat m :: rat) / of_nat n"
    by simp
  ultimately have "b64 (of_nat m / of_nat n) \<le> b64 1"
    by (intro b64_mono)
  then show ?thesis
    by (simp add: b64_consts b64_nonneg)
qed

lemma compute_skill_match_range:
  "\<exists>r. compute_skill_match i b = Inr r \<and> 0 \<le> r \<and> r \<le> 1"
proof -
  define I where "I = set (map py_lower (normalize_tech_stack i))"
  define B where "B = set (map py_lower (normalize_tech_stack b))"
  have fin: "finite I" by (simp add: I_def)
  have le: "card (I \<inter> B) \<le> card I"
    using fin by (intro card_mono) auto
  show ?thesis
  proof (cases "I = {} \<or> I \<inter> B = {}")
    case True
    then show ?thesis
      by (auto simp: compute_skill_match_eq I_def B_def Let_def)
  next
    case False
    then have "0 < card I" using fin by (simp add: card_gt_0_iff)
    from b64_ratio_range [OF le this] False show ?thesis
      by (auto simp: compute_skill_match_eq I_def B_def Let_def)
  qed
qed

lemma normalize_tech_stack_set:
  "set (normalize_tech_stack (PList vs)) = {t \<in> (\<lambda>v. py_strip (py_str v)) ` set vs. t \<noteq> []}"
  by (auto simp: normalize_tech_stack_list)

lemma compute_skill_match_sets:
  assumes "set xs = set xs'" "set ys = set ys'"
  shows "compute_skill_match (PList xs) (PList ys) = compute_skill_match (PList xs') (PList ys')"
proof -
  have "set (normalize_tech_stack (PList xs)) = set (normalize_tech_stack (PList xs'))"
    "set (normalize_tech_stack (PList ys)) = set (normalize_tech_stack (PList ys'))"
    using assms by (simp_all only: normalize_tech_stack_set)
  then show ?thesis
    by (simp add: compute_skill_match_def)
qed

lemma skill_match_example:
  "compute_skill_match (PList [PStr ''Python'', PStr ''Go'']) (PList [PStr ''python'', PStr ''rust''])
     = Inr (1 / 2)"
  by code_simp

lemma skill_match_examples_zero:
  "compute_skill_match (PList []) (PList [PStr ''python'', PStr ''rust'']) = Inr 0"
  "compute_skill_match (PList [PStr ''Node'']) (PList [PStr ''Node.js'']) = Inr 0"
  by code_simp+

text \<open>
  C3. For tech-stack values of any shape the skill match is
  \<open>|idea_set \<inter> builder_set| / |idea_set|\<close>, a float division, over the lower-cased
  normalized token sets; it lies in \<open>[0, 1]\<close>; it is exactly 0 when the idea's set or the
  intersection is empty; and two lists with the same elements, in any order and with any
  repetitions, give the same result. The stacks \<open>["Python","Go"]\<close> and
  \<open>["python","rust"]\<close> give 0.5.
\<close>

theorem compute_skill_match_ratio:
  "compute_skill_match i b =
     Inr (let idea_set = set (map py_lower (normalize_tech_stack i));
              builder_set = set (map py_lower (normalize_tech_stack b))
          in if idea_set = {} \<or> idea_set \<inter> builder_set = {} then 0
             else b64 (of_nat (card (idea_set \<inter> builder_set)) / of_nat (card idea_set)))
   \<and> (\<exists>r. compute_skill_match i b = Inr r \<and> 0 \<le> r \<and> r \<le> 1)
   \<and> (set xs = set xs' \<and> set ys = set ys' \<longrightarrow>
        compute_skill_match (PList xs) (PList ys) = compute_skill_match (PList xs') (PList ys'))
   \<and> compute_skill_match (PList [PStr ''Python'', PStr ''Go''])
                           (PList [PStr ''python'', PStr ''rust'']) = Inr (1 / 2)
   \<and> compute_skill_match (PList []) (PList [PStr ''python'', PStr ''rust'']) = Inr 0
   \<and> compute_skill_match (PList [PStr ''Node'']) (PList [PStr ''Node.js'']) = Inr 0"
  using compute_skill_match_eq [of i b] compute_skill_match_range [of i b]
    compute_skill_match_sets [of xs xs' ys ys'] skill_match_example skill_match_examples_zero
  by blast

theorem compute_skill_match_ratio_witness:
  "set [PStr ''Go'', PStr ''Python'', PStr ''Go''] = set [PStr ''Python'', PStr ''Go'']
   \<and> set [PStr ''rust'', PStr ''python''] = set [PStr ''python'', PStr ''rust'']
   \<and> compute_skill_match (PList [PStr ''Go'', PStr ''Python'', PStr ''Go''])
                           (PList [PStr ''rust'', PStr ''python''])
       = compute_skill_match (PList [PStr ''Python'', PStr ''Go''])
                             (PList [PStr ''python'', PStr ''rust''])"
proof -
  have "set [PStr ''Go'', PStr ''Python'', PStr ''Go''] = set [PStr ''Python'', PStr ''Go'']"
    by auto
  moreover have "set [PStr ''rust'', PStr ''python''] = set [PStr ''python'', PStr ''rust'']"
    by auto
  ultimately show ?thesis
    using compute_skill_match_ratio
      [of _ _ "[PStr ''Go'', PStr ''Python'', PStr ''Go'']" "[PStr ''Python'', PStr ''Go'']"
          "[PStr ''rust'', PStr ''python'']" "[PStr ''python'', PStr ''rust'']"]
    by blast
qed

lemma compute_answer_quality_not_iterable:
  "compute_answer_quality interp (PInt 5) = Inl TypeError"
  by (simp add: compute_answer_quality_def py_truthy_def py_iter_def)

text \<open>
  C6. When \<open>str\<close> returns on every element of the two tech-stack lists and on every answer,
  the scorers return a value and raise no exception: the normalizer, the skill match for
  tech-stack values of any shape, where the division is reached only with a non-empty idea
  set, and the answer quality for every list of answers, each with the value that the
  definition on values gives; the combiner returns on the two floats that the scorers
  return. A tech-stack value that is neither a list nor a text normalizes to the empty
  list, and a text is split without any \<open>str\<close>.
\<close>

theorem engine_total:
  "(list_all (str_returns interp) (str_operands i)
      \<and> list_all (str_returns interp) (str_operands b)
      \<and> list_all (str_returns interp) as \<longrightarrow>
        normalize_tech_stack_call interp i = Inr (normalize_tech_stack i)
      \<and> compute_skill_match_call interp i b = compute_skill_match i b
      \<and> compute_answer_quality_call interp (PList as) = compute_answer_quality interp (PList as)
      \<and> (\<exists>sm aq. compute_skill_match_call interp i b = Inr sm \<and> 0 \<le> sm \<and> sm \<le> 1
            \<and> compute_answer_quality_call interp (PList as) = Inr aq
            \<and> compute_final_readiness_call (PFloat sm t) (PFloat aq t') =
                Inr (compute_final_readiness sm aq))
      \<and> (set (map py_lower (normalize_tech_stack i)) = {} \<longrightarrow>
           compute_skill_match_call interp i b = Inr 0))
   \<and> normalize_tech_stack_call interp PNone = Inr []
   \<and> normalize_tech_stack_call interp (PBool c) = Inr []
   \<and> normalize_tech_stack_call interp (PInt n) = Inr []
   \<and> normalize_tech_stack_call interp (PFloat x r) = Inr []
   \<and> normalize_tech_stack_call interp (PDict kvs) = Inr []
   \<and> normalize_tech_stack_call interp (PStr s) = Inr (normalize_tech_stack (PStr s))"
proof -
  have other: "normalize_tech_stack_call interp PNone = Inr []"
    "normalize_tech_stack_call interp (PBool c) = Inr []"
    "normalize_tech_stack_call interp (PInt n) = Inr []"
    "normalize_tech_stack_call interp (PFloat x r) = Inr []"
    "normalize_tech_stack_call interp (PDict kvs) = Inr []"
    "normalize_tech_stack_call interp (PStr s) = Inr (normalize_tech_stack (PStr s))"
    by (simp_all add: normalize_tech_stack_call_def normalize_tech_stack_def)
  have main: "normalize_tech_stack_call interp i = Inr (normalize_tech_stack i)
      \<and> compute_skill_match_call interp i b = compute_skill_match i b
      \<and> compute_answer_quality_call interp (PList as) = compute_answer_quality interp (PList as)
      \<and> (\<exists>sm aq. compute_skill_match_call interp i b = Inr sm \<and> 0 \<le> sm \<and> sm \<le> 1
            \<and> compute_answer_quality_call interp (PList as) = Inr aq
            \<and> compute_final_readiness_call (PFloat sm t) (PFloat aq t') =
                Inr (compute_final_readiness sm aq))
      \<and> (set (map py_lower (normalize_tech_stack i)) = {} \<longrightarrow>
           compute_skill_match_call interp i b = Inr 0)"
    if h: "list_all (str_returns interp) (str_operands i)"
      "list_all (str_returns interp) (str_operands b)"
      "list_all (str_returns interp) as"
  proof -
    have n: "normalize_tech_stack_call interp i = Inr (normalize_tech_stack i)"
      using h(1) by (rule normalize_tech_stack_call_returns)
    have k: "compute_skill_match_call interp i b = compute_skill_match i b"
      using h(1,2) by (rule compute_skill_match_call_returns)
    have q: "compute_answer_quality_call interp (PList as) = compute_answer_quality interp (PList as)"
      using h(3) by (rule compute_answer_quality_call_returns)
    obtain sm where sm: "compute_skill_match i b = Inr sm" "0 \<le> sm" "sm \<le> 1"
      using compute_skill_match_range [of i b] by blast
    obtain aq where aq: "compute_answer_quality interp (PList as) = Inr aq"
      by (cases as) (simp_all add: compute_answer_quality_empty compute_answer_quality_nonempty)
    have r: "compute_final_readiness_call (PFloat sm t) (PFloat aq t') =
               Inr (compute_final_readiness sm aq)"
      by (rule compute_final_readiness_call_floats)
    have e: "set (map py_lower (normalize_tech_stack i)) = {} \<longrightarrow>
               compute_skill_match_call interp i b = Inr 0"
      unfolding k by (simp add: compute_skill_match_def)
    from sm aq r have "\<exists>sm aq. compute_skill_match_call interp i b = Inr sm \<and> 0 \<le> sm \<and> sm \<le> 1
            \<and> compute_answer_quality_call interp (PList as) = Inr aq
            \<and> compute_final_readiness_call (PFloat sm t) (PFloat aq t') =
                Inr (compute_final_readiness sm aq)"
      unfolding k q by blast
    with n k q e show ?thesis
      by blast
  qed
  from main other show ?thesis
    by blast
qed

theorem engine_total_witness:
  "list_all (str_returns (cpython_3_12 100)) (str_operands (PList [PStr ''  '']))
   \<and> list_all (str_returns (cpython_3_12 100)) (str_operands (PList [PInt 3, PStr ''go'']))
   \<and> list_all (str_returns (cpython_3_12 100)) [PNone, PBool False]
   \<and> set (map py_lower (normalize_tech_stack (PList [PStr ''  '']))) = {}
   \<and> normalize_tech_stack_call (cpython_3_12 100) (PList [PStr ''  '']) = Inr []
   \<and> compute_skill_match_call (cpython_3_12 100) (PList [PStr ''  ''])
        (PList [PInt 3, PStr ''go'']) = Inr 0
   \<and> (\<exists>aq. compute_answer_quality_call (cpython_3_12 100) (PList [PNone, PBool False]) = Inr aq)"
proof -
  have d: "length (nat_digits 3) = 1"
    by (simp add: nat_digits.simps)
  have h1: "list_all (str_returns (cpython_3_12 100)) (str_operands (PList [PStr ''  '']))"
    by (simp add: str_operands_def str_returns_text)
  have h2: "list_all (str_returns (cpython_3_12 100)) (str_operands (PList [PInt 3, PStr ''go'']))"
    by (simp add: str_operands_def str_returns_atoms str_returns_text d) (simp add: cpython_3_12_def)
  have h3: "list_all (str_returns (cpython_3_12 100)) [PNone, PBool False]"
    by (simp add: str_returns_atoms) (simp add: cpython_3_12_def)
  have z: "normalize_tech_stack (PList [PStr ''  '']) = []"
    by code_simp
  then have h4: "set (map py_lower (normalize_tech_stack (PList [PStr ''  '']))) = {}"
    by simp
  from engine_total
      [where interp = "cpython_3_12 100" and i = "PList [PStr ''  '']"
         and b = "PList [PInt 3, PStr ''go'']" and as = "[PNone, PBool False]"
         and t = "''0.0''" and t' = "''0.0''" and c = True and n = 0 and x = 0
         and r = "''0.0''" and kvs = "[]" and s = "[]"]
    h1 h2 h3 h4
  have "normalize_tech_stack_call (cpython_3_12 100) (PList [PStr ''  '']) =
          Inr (normalize_tech_stack (PList [PStr ''  '']))
        \<and> compute_skill_match_call (cpython_3_12 100) (PList [PStr ''  ''])
            (PList [PInt 3, PStr ''go'']) = Inr 0
        \<and> (\<exists>aq. compute_answer_quality_call (cpython_3_12 100) (PList [PNone, PBool False]) = Inr aq)"
    by blast
  with h1 h2 h3 h4 show ?thesis
    unfolding z by blast
qed

theorem engine_raises:
  "normalize_tech_stack_call (cpython_3_12 100) (PList [PInt (10 ^ 4300)]) = Inl ValueError
   \<and> compute_skill_match_call (cpython_3_12 100) (PList [PInt (10 ^ 4300)])
        (PList [PStr ''python'']) = Inl ValueError"
proof
  show n: "normalize_tech_stack_call (cpython_3_12 100) (PList [PInt (10 ^ 4300)]) = Inl ValueError"
    by (rule normalize_tech_stack_call_raises) (rule py_str_call_beyond_limit)
  show "compute_skill_match_call (cpython_3_12 100) (PList [PInt (10 ^ 4300)])
          (PList [PStr ''python'']) = Inl ValueError"
    by (rule compute_skill_match_call_raises) (rule n)
qed

section \<open>The routes and the store\<close>

lemma py_bind_Inr: "py_bind m f = Inr y \<longleftrightarrow> (\<exists>x. m = Inr x \<and> f x = Inr y)"
  by (cases m) (simp_all add: py_bind_def)

lemma getitem_Inr: "getitem d k = Inr v \<longleftrightarrow> map_of d k = Some v"
  by (simp add: getitem_def split: option.splits)

lemma find_from_Some:
  "find_from wanted k xs = Some idx \<Longrightarrow> \<exists>j<length xs. idx = k + j \<and> idea_id (xs ! j) = wanted"
proof (induction xs arbitrary: k)
  case Nil
  then show ?case by simp
next
  case (Cons x xs)
  show ?case
  proof (cases "idea_id x = wanted")
    case True
    with Cons.prems show ?thesis by auto
  next
    case False
    with Cons.prems have "find_from wanted (Suc k) xs = Some idx" by simp
    from Cons.IH [OF this] obtain j where "j < length xs" "idx = Suc k + j" "idea_id (xs ! j) = wanted"
      by blast
    then have "Suc j < length (x # xs) \<and> idx = k + Suc j \<and> idea_id ((x # xs) ! Suc j) = wanted"
      by simp
    then show ?thesis by blast
  qed
qed

lemma find_idea_index_Some:
  "find_idea_index wanted IDEAS = Some idx \<Longrightarrow> idx < length IDEAS \<and> idea_id (IDEAS ! idx) = wanted"
  using find_from_Some [of wanted 0 IDEAS idx] by (auto simp: find_idea_index_def)

lemma gen_q_shape:
  "snd (gen_q wanted ai_questions IDEAS) = IDEAS
   \<or> (\<exists>idx q. idx < length IDEAS
        \<and> snd (gen_q wanted ai_questions IDEAS) = IDEAS[idx := (IDEAS ! idx)\<lparr>generated_questions := q\<rparr>])"
  by (auto simp: gen_q_def dest: find_idea_index_Some split: option.splits sum.splits)


lemma post_idea_run_shape:
  assumes "post_idea_run data IDEAS = Inr (r, IDEAS')"
  shows "(r = TeamSizeMismatch \<and> IDEAS' = IDEAS)
       \<or> (\<exists>idea stack. r = IdeaCreated idea \<and> IDEAS' = IDEAS @ [idea]
             \<and> idea_id idea = length IDEAS + 1 \<and> interests idea = []
             \<and> generated_questions idea = PList []
             \<and> map_of data ''tech_stack'' = Some stack
             \<and> tech_stack idea = normalize_tech_stack stack)"
  using assms
  by (auto simp: post_idea_run_def py_bind_Inr getitem_Inr Let_def split: if_splits)

lemma post_idea_shape:
  "(\<exists>r. post_idea data IDEAS = (r, IDEAS) \<and> (\<forall>idea. r \<noteq> IdeaCreated idea))
   \<or> (\<exists>idea stack. post_idea data IDEAS = (IdeaCreated idea, IDEAS @ [idea])
         \<and> idea_id idea = length IDEAS + 1 \<and> interests idea = []
         \<and> generated_questions idea = PList []
         \<and> map_of data ''tech_stack'' = Some stack
         \<and> tech_stack idea = normalize_tech_stack stack)"
proof (cases "missing_fields required_fields data = []")
  case False
  then show ?thesis by (simp add: post_idea_def)
next
  case True
  show ?thesis
  proof (cases "post_idea_run data IDEAS")
    case (Inl e)
    with True show ?thesis by (simp add: post_idea_def)
  next
    case (Inr res)
    obtain r IDEAS' where res: "res = (r, IDEAS')" by (cases res)
    from post_idea_run_shape [of data IDEAS r IDEAS'] Inr res True show ?thesis
      by (auto simp: post_idea_def)
  qed
qed

lemma submit_interest_run_shape:
  assumes "submit_interest_run interp idx data p IDEAS = Inr (r, IDEAS')"
  shows "(r = AnswerCountMismatch \<and> IDEAS' = IDEAS)
       \<or> (\<exists>intr. r = InterestRecorded intr
             \<and> IDEAS' = IDEAS[idx := (IDEAS ! idx)\<lparr>interests := interests (IDEAS ! idx) @ [intr]\<rparr>]
             \<and> interest_id intr = length (interests (IDEAS ! idx)) + 1
             \<and> map_of data ''answers'' = Some (answers intr)
             \<and> py_len (answers intr) = py_len (generated_questions (IDEAS ! idx)))"
  using assms
  by (auto simp: submit_interest_run_def py_bind_Inr getitem_Inr Let_def split: if_splits)

lemma submit_interest_shape:
  "(\<exists>r. submit_interest interp wanted data p IDEAS = (r, IDEAS) \<and> (\<forall>intr. r \<noteq> InterestRecorded intr))
   \<or> (\<exists>idx intr. find_idea_index wanted IDEAS = Some idx
         \<and> submit_interest interp wanted data p IDEAS =
             (InterestRecorded intr,
              IDEAS[idx := (IDEAS ! idx)\<lparr>interests := interests (IDEAS ! idx) @ [intr]\<rparr>])
         \<and> interest_id intr = length (interests (IDEAS ! idx)) + 1
         \<and> map_of data ''answers'' = Some (answers intr)
         \<and> py_len (answers intr) = py_len (generated_questions (IDEAS ! idx)))"
proof (cases "find_idea_index wanted IDEAS")
  case None
  then show ?thesis by (simp add: submit_interest_def)
next
  case (Some idx)
  show ?thesis
  proof (cases "missing_fields required data = []")
    case False
    with Some show ?thesis by (simp add: submit_interest_def)
  next
    case True
    show ?thesis
    proof (cases "submit_interest_run interp idx data p IDEAS")
      case (Inl e)
      with Some True show ?thesis by (simp add: submit_interest_def)
    next
      case (Inr res)
      obtain r IDEAS' where res: "res = (r, IDEAS')" by (cases res)
      from submit_interest_run_shape [of interp idx data p IDEAS r IDEAS'] Inr res Some True show ?thesis
        by (auto simp: submit_interest_def)
    qed
  qed
qed

lemma list_all_update:
  "list_all P xs \<Longrightarrow> P y \<Longrightarrow> list_all P (xs[i := y])"
  by (metis list_all_length length_list_update nth_list_update_eq nth_list_update_neq)

lemma reachable_ids:
  assumes "reachable interp IDEAS"
  shows "map idea_id IDEAS = [1..<Suc (length IDEAS)]
    \<and> list_all (\<lambda>i. map interest_id (interests i) = [1..<Suc (length (interests i))]) IDEAS"
  using assms
proof (induction rule: reachable.induct)
  case start
  then show ?case by simp
next
  case (posted IDEAS data)
  from post_idea_shape [of data IDEAS] show ?case
  proof (elim disjE exE conjE)
    fix r assume "post_idea data IDEAS = (r, IDEAS)"
    with posted.IH show ?thesis by simp
  next
    fix idea stack
    assume "post_idea data IDEAS = (IdeaCreated idea, IDEAS @ [idea])"
      "idea_id idea = length IDEAS + 1" "interests idea = []"
    with posted.IH show ?thesis by simp
  qed
next
  case (questioned IDEAS wanted ai_questions)
  from gen_q_shape [of wanted ai_questions IDEAS] show ?case
  proof (elim disjE exE conjE)
    assume "snd (gen_q wanted ai_questions IDEAS) = IDEAS"
    with questioned.IH show ?thesis by simp
  next
    fix idx q
    assume idx: "idx < length IDEAS"
      and s: "snd (gen_q wanted ai_questions IDEAS) = IDEAS[idx := (IDEAS ! idx)\<lparr>generated_questions := q\<rparr>]"
    have "list_all (\<lambda>i. map interest_id (interests i) = [1..<Suc (length (interests i))]) IDEAS"
      using questioned.IH by simp
    then have "map interest_id (interests (IDEAS ! idx)) = [1..<Suc (length (interests (IDEAS ! idx)))]"
      using idx by (simp add: list_all_length)
    then have "list_all (\<lambda>i. map interest_id (interests i) = [1..<Suc (length (interests i))])
        (IDEAS[idx := (IDEAS ! idx)\<lparr>generated_questions := q\<rparr>])"
      using questioned.IH by (intro list_all_update) simp_all
    moreover have "map idea_id (IDEAS[idx := (IDEAS ! idx)\<lparr>generated_questions := q\<rparr>]) = map idea_id IDEAS"
      using idx by (simp add: map_update list_update_same_conv)
    ultimately show ?thesis
      using questioned.IH s by simp
  qed
next
  case (submitted IDEAS wanted data ai_personality)
  from submit_interest_shape [of interp wanted data ai_personality IDEAS] show ?case
  proof (elim disjE exE conjE)
    fix r assume "submit_interest interp wanted data ai_personality IDEAS = (r, IDEAS)"
    with submitted.IH show ?thesis by simp
  next
    fix idx intr
    assume f: "find_idea_index wanted IDEAS = Some idx"
      and s: "submit_interest interp wanted data ai_personality IDEAS =
             (InterestRecorded intr,
              IDEAS[idx := (IDEAS ! idx)\<lparr>interests := interests (IDEAS ! idx) @ [intr]\<rparr>])"
      and i: "interest_id intr = length (interests (IDEAS ! idx)) + 1"
    have idx: "idx < length IDEAS" using find_idea_index_Some [OF f] by simp
    have "list_all (\<lambda>i. map interest_id (interests i) = [1..<Suc (length (interests i))]) IDEAS"
      using submitted.IH by simp
    then have "map interest_id (interests (IDEAS ! idx)) = [1..<Suc (length (interests (IDEAS ! idx)))]"
      using idx by (simp add: list_all_length)
    then have "list_all (\<lambda>i. map interest_id (interests i) = [1..<Suc (length (interests i))])
        (IDEAS[idx := (IDEAS ! idx)\<lparr>interests := interests (IDEAS ! idx) @ [intr]\<rparr>])"
      using submitted.IH i by (intro list_all_update) simp_all
    moreover have "map idea_id (IDEAS[idx := (IDEAS ! idx)\<lparr>interests := interests (IDEAS ! idx) @ [intr]\<rparr>])
        = map idea_id IDEAS"
      using idx by (simp add: map_update list_update_same_conv)
    ultimately show ?thesis
      using submitted.IH s by simp
  qed
qed

lemma compute_skill_match_defined: "\<exists>r. compute_skill_match i b = Inr r"
proof -
  have "(card (set (map py_lower (normalize_tech_stack i))) = 0)
      = (set (map py_lower (normalize_tech_stack i)) = {})"
    by simp
  then show ?thesis
    unfolding compute_skill_match_def int_truediv_def Let_def by auto
qed

lemma compute_answer_quality_items:
  assumes "py_iter v = Inr items" "py_truthy v = (items \<noteq> [])"
  shows "\<exists>q. compute_answer_quality interp v = Inr q"
proof (cases items)
  case Nil
  with assms show ?thesis by (simp add: compute_answer_quality_def)
next
  case (Cons a as)
  with assms show ?thesis
    by (simp add: compute_answer_quality_def answer_scores_map float_truediv_int_def Let_def
        del: answer_scores.simps)
qed

lemma compute_answer_quality_sized:
  assumes "py_len v = Inr n"
  shows "\<exists>q. compute_answer_quality interp v = Inr q"
proof -
  from assms have "\<exists>items. py_iter v = Inr items \<and> py_truthy v = (items \<noteq> [])"
    by (cases v) (simp_all add: py_len_def py_iter_def py_truthy_def)
  then show ?thesis
    using compute_answer_quality_items by blast
qed

lemma evaluate_builder_external_failure:
  assumes "py_len answs = Inr n"
  shows "evaluate_builder interp idea bld questions answs (Inl e) = Inl e"
proof -
  obtain r where r: "compute_skill_match (PList (map PStr (tech_stack idea)))
      (PList (map PStr (builder_tech_stack bld))) = Inr r"
    using compute_skill_match_defined by blast
  obtain q where q: "compute_answer_quality interp answs = Inr q"
    using compute_answer_quality_sized [OF assms] by blast
  show ?thesis
    by (simp add: evaluate_builder_def py_bind_def r q)
qed

lemma evaluate_builder_defined:
  assumes "py_len answs = Inr n"
  shows "\<exists>ev. evaluate_builder interp idea bld questions answs (Inr (PDict kvs)) = Inr ev"
proof -
  obtain r where r: "compute_skill_match (PList (map PStr (tech_stack idea)))
      (PList (map PStr (builder_tech_stack bld))) = Inr r"
    using compute_skill_match_defined by blast
  obtain q where q: "compute_answer_quality interp answs = Inr q"
    using compute_answer_quality_sized [OF assms] by blast
  show ?thesis
    by (simp add: evaluate_builder_def py_bind_def py_get_def r q Let_def)
qed

lemma missing_fields_none:
  "missing_fields fs data = [] \<Longrightarrow> f \<in> set fs \<Longrightarrow> \<exists>v. getitem data f = Inr v"
  by (auto simp: missing_fields_def getitem_def filter_empty_conv split: option.splits)

lemma submit_interest_run_mismatch:
  assumes "map_of data ''answers'' = Some answs"
    "py_len (generated_questions (IDEAS ! idx)) = Inr nq" "py_len answs = Inr na" "nq \<noteq> na"
  shows "submit_interest_run interp idx data p IDEAS = Inr (AnswerCountMismatch, IDEAS)"
  using assms by (simp add: submit_interest_run_def py_bind_def getitem_def Let_def)

lemma submit_interest_run_match:
  assumes m: "missing_fields required data = []"
    and a: "map_of data ''answers'' = Some answs"
    and l: "py_len (generated_questions (IDEAS ! idx)) = Inr n" "py_len answs = Inr n"
  shows "submit_interest_run interp idx data (Inl e) IDEAS = Inl e"
    and "\<exists>intr. submit_interest_run interp idx data (Inr (PDict kvs)) IDEAS =
           Inr (InterestRecorded intr,
                IDEAS[idx := (IDEAS ! idx)\<lparr>interests := interests (IDEAS ! idx) @ [intr]\<rparr>])"
proof -
  obtain nm ct em stack years where g:
    "getitem data ''name'' = Inr nm" "getitem data ''contact'' = Inr ct"
    "getitem data ''email'' = Inr em" "getitem data ''tech_stack'' = Inr stack"
    "getitem data ''years_of_experience'' = Inr years"
    using missing_fields_none [OF m, of "''name''"] missing_fields_none [OF m, of "''contact''"]
      missing_fields_none [OF m, of "''email''"] missing_fields_none [OF m, of "''tech_stack''"]
      missing_fields_none [OF m, of "''years_of_experience''"]
    by (auto simp: required_def)
  have ga: "getitem data ''answers'' = Inr answs"
    using a by (simp add: getitem_def)
  show "submit_interest_run interp idx data (Inl e) IDEAS = Inl e"
    by (simp add: submit_interest_run_def py_bind_def g ga l Let_def
        evaluate_builder_external_failure [OF l(2)])
  obtain ev where "evaluate_builder interp (IDEAS ! idx)
      \<lparr>name = nm, contact = ct, email = em, builder_tech_stack = normalize_tech_stack stack,
       years_of_experience = years, comments = get_default data ''comments'' (PStr [])\<rparr>
      (generated_questions (IDEAS ! idx)) answs (Inr (PDict kvs)) = Inr ev"
    using evaluate_builder_defined [OF l(2)] by blast
  then show "\<exists>intr. submit_interest_run interp idx data (Inr (PDict kvs)) IDEAS =
           Inr (InterestRecorded intr,
                IDEAS[idx := (IDEAS ! idx)\<lparr>interests := interests (IDEAS ! idx) @ [intr]\<rparr>])"
    by (simp add: submit_interest_run_def py_bind_def g ga l Let_def)
qed

lemma submit_interest_equal_lengths:
  assumes "map_of data ''answers'' = Some answs"
    "py_len (generated_questions (IDEAS ! idx)) = Inr n" "py_len answs = Inr n"
  shows "submit_interest_run interp idx data p IDEAS \<noteq> Inr (AnswerCountMismatch, S)"
  using assms
  by (auto simp: submit_interest_run_def py_bind_Inr getitem_Inr Let_def)

text \<open>
  C9, as amended. The tech stack stored with a created idea is the normalizer's result on
  the submitted value: the trimmed, non-empty tokens in their first-seen order and original
  casing. Tokens that are equal, or equal up to case, are all kept.
\<close>

theorem stored_tech_stack_is_normalized:
  "fst (post_idea data IDEAS) = IdeaCreated idea \<longrightarrow>
     (\<exists>stack. map_of data ''tech_stack'' = Some stack
        \<and> tech_stack idea = normalize_tech_stack stack)
     \<and> [] \<notin> set (tech_stack idea)
     \<and> list_all (\<lambda>t. py_strip t = t) (tech_stack idea)"
  using post_idea_shape [of data IDEAS] normalize_tech_stack_tokens
  by (elim disjE exE conjE) auto

theorem stored_tech_stack_is_normalized_witness:
  "fst (post_idea example_idea []) = IdeaCreated (hd (snd (post_idea example_idea [])))
   \<and> map_of example_idea ''tech_stack'' = Some (PStr ''Python, python'')
   \<and> tech_stack (hd (snd (post_idea example_idea []))) = normalize_tech_stack (PStr ''Python, python'')
   \<and> [] \<notin> set (tech_stack (hd (snd (post_idea example_idea []))))"
proof -
  have c: "fst (post_idea example_idea []) = IdeaCreated (hd (snd (post_idea example_idea [])))"
    by code_simp
  have m: "map_of example_idea ''tech_stack'' = Some (PStr ''Python, python'')"
    by code_simp
  from stored_tech_stack_is_normalized [of example_idea "[]" "hd (snd (post_idea example_idea []))"] c m
  show ?thesis by auto
qed

theorem stored_tech_stack_repeats:
  "fst (post_idea example_idea []) = IdeaCreated (hd (snd (post_idea example_idea [])))
   \<and> tech_stack (hd (snd (post_idea example_idea []))) = [''Python'', ''python'']
   \<and> \<not> distinct (map py_lower (tech_stack (hd (snd (post_idea example_idea [])))))"
  by code_simp

text \<open>
  C8. For an existing idea and a submission with all required fields, whose answers and
  the idea's questions have lengths, the submission is rejected with the answer count
  mismatch if and only if the two lengths differ. The rejection leaves the store unchanged
  and is the same whatever the personality call would return, so the evaluation is not
  reached. With equal lengths a failing personality call leaves the store unchanged, and
  an accepted submission stores the submitted answers, as many as there are questions.
\<close>

theorem answer_count_gate:
  "find_idea_index wanted IDEAS = Some idx \<and> missing_fields required data = []
   \<and> map_of data ''answers'' = Some answs
   \<and> py_len (generated_questions (IDEAS ! idx)) = Inr nq \<and> py_len answs = Inr na
   \<longrightarrow> (fst (submit_interest interp wanted data p IDEAS) = AnswerCountMismatch \<longleftrightarrow> nq \<noteq> na)
     \<and> (nq \<noteq> na \<longrightarrow> submit_interest interp wanted data p IDEAS = (AnswerCountMismatch, IDEAS))
     \<and> (nq = na \<longrightarrow>
          submit_interest interp wanted data (Inl e) IDEAS = (Unhandled e, IDEAS)
          \<and> (\<exists>intr. submit_interest interp wanted data (Inr (PDict kvs)) IDEAS =
                 (InterestRecorded intr,
                  IDEAS[idx := (IDEAS ! idx)\<lparr>interests := interests (IDEAS ! idx) @ [intr]\<rparr>])
               \<and> answers intr = answs
               \<and> py_len (answers intr) = py_len (generated_questions (IDEAS ! idx))))"
proof (intro impI, elim conjE)
  assume f: "find_idea_index wanted IDEAS = Some idx"
    and m: "missing_fields required data = []"
    and a: "map_of data ''answers'' = Some answs"
    and lq: "py_len (generated_questions (IDEAS ! idx)) = Inr nq"
    and la: "py_len answs = Inr na"
  have s: "submit_interest interp wanted data q IDEAS =
      (case submit_interest_run interp idx data q IDEAS of Inl e \<Rightarrow> (Unhandled e, IDEAS) | Inr result \<Rightarrow> result)" for q
    using f m by (simp add: submit_interest_def)
  have neq: "nq \<noteq> na \<Longrightarrow> submit_interest interp wanted data p IDEAS = (AnswerCountMismatch, IDEAS)"
    using submit_interest_run_mismatch [OF a lq la] by (simp add: s)
  have eq1: "nq = na \<Longrightarrow> fst (submit_interest interp wanted data p IDEAS) \<noteq> AnswerCountMismatch"
  proof
    assume e: "nq = na" and r: "fst (submit_interest interp wanted data p IDEAS) = AnswerCountMismatch"
    then obtain S where "submit_interest_run interp idx data p IDEAS = Inr (AnswerCountMismatch, S)"
      by (cases "submit_interest_run interp idx data p IDEAS") (auto simp: s)
    then show False
      using submit_interest_equal_lengths [OF a lq] la e by simp
  qed
  have eq2: "nq = na \<Longrightarrow> submit_interest interp wanted data (Inl e) IDEAS = (Unhandled e, IDEAS)"
    using submit_interest_run_match(1) [OF m a lq] la by (simp add: s)
  have eq3: "\<exists>intr. submit_interest interp wanted data (Inr (PDict kvs)) IDEAS =
                 (InterestRecorded intr,
                  IDEAS[idx := (IDEAS ! idx)\<lparr>interests := interests (IDEAS ! idx) @ [intr]\<rparr>])
               \<and> answers intr = answs
               \<and> py_len (answers intr) = py_len (generated_questions (IDEAS ! idx))" if e: "nq = na"
  proof -
    from submit_interest_run_match(2) [OF m a lq] la e obtain intr where
      r: "submit_interest_run interp idx data (Inr (PDict kvs)) IDEAS =
           Inr (InterestRecorded intr,
                IDEAS[idx := (IDEAS ! idx)\<lparr>interests := interests (IDEAS ! idx) @ [intr]\<rparr>])"
      by blast
    from submit_interest_run_shape [OF r] a have "answers intr = answs"
      "py_len (answers intr) = py_len (generated_questions (IDEAS ! idx))"
      by auto
    with r show ?thesis by (auto simp: s)
  qed
  show "(fst (submit_interest interp wanted data p IDEAS) = AnswerCountMismatch \<longleftrightarrow> nq \<noteq> na)
     \<and> (nq \<noteq> na \<longrightarrow> submit_interest interp wanted data p IDEAS = (AnswerCountMismatch, IDEAS))
     \<and> (nq = na \<longrightarrow>
          submit_interest interp wanted data (Inl e) IDEAS = (Unhandled e, IDEAS)
          \<and> (\<exists>intr. submit_interest interp wanted data (Inr (PDict kvs)) IDEAS =
                 (InterestRecorded intr,
                  IDEAS[idx := (IDEAS ! idx)\<lparr>interests := interests (IDEAS ! idx) @ [intr]\<rparr>])
               \<and> answers intr = answs
               \<and> py_len (answers intr) = py_len (generated_questions (IDEAS ! idx))))"
    using neq eq1 eq2 eq3 by (cases "nq = na") simp_all
qed

lemma post_example:
  "post_idea example_idea IDEAS =
     (IdeaCreated (example_created (length IDEAS + 1)), IDEAS @ [example_created (length IDEAS + 1)])"
proof -
  have n: "normalize_tech_stack (PStr ''Python, python'') = [''Python'', ''python'']"
    by code_simp
  show ?thesis
    by (simp add: post_idea_def post_idea_run_def missing_fields_def required_fields_def n
        example_idea_def getitem_def py_bind_def
        py_int_def py_iter_def py_get_def get_default_def example_created_def Let_def)
qed

lemma example_store_eq:
  "example_store = [(example_created 1)\<lparr>generated_questions := example_questions\<rparr>]"
  by (simp add: example_store_def post_example gen_q_def find_idea_index_def example_created_def)

lemma example_interest_fields:
  "missing_fields required (example_interest a) = []"
  "map_of (example_interest a) ''answers'' = Some a"
  by (simp_all add: missing_fields_def required_def example_interest_def)

theorem answer_count_gate_witness:
  "find_idea_index 1 example_store = Some 0
   \<and> missing_fields required (example_interest (PList [PStr ''It helps''])) = []
   \<and> map_of (example_interest (PList [PStr ''It helps''])) ''answers'' = Some (PList [PStr ''It helps''])
   \<and> py_len (generated_questions (example_store ! 0)) = Inr 2
   \<and> py_len (PList [PStr ''It helps'']) = Inr 1
   \<and> submit_interest (cpython_3_12 100) 1 (example_interest (PList [PStr ''It helps'']))
         (Inl (ExternalError ''not called'')) example_store
       = (AnswerCountMismatch, example_store)
   \<and> missing_fields required (example_interest (PList [PStr ''It helps'', PStr ''A compiler''])) = []
   \<and> py_len (PList [PStr ''It helps'', PStr ''A compiler'']) = Inr 2
   \<and> (\<exists>intr. submit_interest (cpython_3_12 100) 1 (example_interest (PList [PStr ''It helps'', PStr ''A compiler'']))
                (Inr (PDict [])) example_store
              = (InterestRecorded intr,
                 example_store[0 := (example_store ! 0)
                   \<lparr>interests := interests (example_store ! 0) @ [intr]\<rparr>])
            \<and> answers intr = PList [PStr ''It helps'', PStr ''A compiler''])"
proof -
  have f: "find_idea_index 1 example_store = Some 0"
    by (simp add: example_store_eq find_idea_index_def example_created_def)
  have m1: "missing_fields required (example_interest (PList [PStr ''It helps''])) = []"
    by (rule example_interest_fields)
  have a1: "map_of (example_interest (PList [PStr ''It helps''])) ''answers'' = Some (PList [PStr ''It helps''])"
    by (rule example_interest_fields)
  have lq: "py_len (generated_questions (example_store ! 0)) = Inr 2"
    by (simp add: example_store_eq py_len_def example_questions_def)
  have l1: "py_len (PList [PStr ''It helps'']) = Inr 1"
    by (simp add: py_len_def)
  have m2: "missing_fields required (example_interest (PList [PStr ''It helps'', PStr ''A compiler''])) = []"
    by (rule example_interest_fields)
  have a2: "map_of (example_interest (PList [PStr ''It helps'', PStr ''A compiler''])) ''answers''
      = Some (PList [PStr ''It helps'', PStr ''A compiler''])"
    by (rule example_interest_fields)
  have l2: "py_len (PList [PStr ''It helps'', PStr ''A compiler'']) = Inr 2"
    by (simp add: py_len_def)
  from answer_count_gate [where wanted = 1 and IDEAS = example_store and idx = 0
      and data = "example_interest (PList [PStr ''It helps''])" and answs = "PList [PStr ''It helps'']"
      and nq = 2 and na = 1 and p = "Inl (ExternalError ''not called'')"] f m1 a1 lq l1
  have r1: "submit_interest (cpython_3_12 100) 1 (example_interest (PList [PStr ''It helps'']))
         (Inl (ExternalError ''not called'')) example_store
       = (AnswerCountMismatch, example_store)"
    by simp
  from answer_count_gate [where wanted = 1 and IDEAS = example_store and idx = 0
      and data = "example_interest (PList [PStr ''It helps'', PStr ''A compiler''])"
      and answs = "PList [PStr ''It helps'', PStr ''A compiler'']" and nq = 2 and na = 2
      and kvs = "[]"] f m2 a2 lq l2
  have r2: "\<exists>intr. submit_interest (cpython_3_12 100) 1 (example_interest (PList [PStr ''It helps'', PStr ''A compiler'']))
                (Inr (PDict [])) example_store
              = (InterestRecorded intr,
                 example_store[0 := (example_store ! 0)
                   \<lparr>interests := interests (example_store ! 0) @ [intr]\<rparr>])
            \<and> answers intr = PList [PStr ''It helps'', PStr ''A compiler'']"
    by blast
  from f m1 a1 lq l1 r1 m2 l2 r2 show ?thesis
    by blast
qed

text \<open>
  C7. In every state of the store that the routes can reach, the idea at position \<open>n\<close>
  of the list, the \<open>n\<close>-th created, has id \<open>n\<close>, and within each idea the \<open>k\<close>-th
  interest has interest id \<open>k\<close>; so idea ids are distinct in the store and interest ids
  are distinct within an idea. A created idea is appended with the id \<open>length + 1\<close>, and a
  recorded interest is appended to its idea with the id that idea's interest count plus 1,
  whatever the other ideas hold.
\<close>

theorem sequential_ids:
  "(reachable interp IDEAS \<longrightarrow>
      map idea_id IDEAS = [1..<Suc (length IDEAS)]
      \<and> distinct (map idea_id IDEAS)
      \<and> list_all (\<lambda>i. map interest_id (interests i) = [1..<Suc (length (interests i))]
                     \<and> distinct (map interest_id (interests i))) IDEAS)
   \<and> (post_idea data IDEAS = (IdeaCreated idea, IDEAS') \<longrightarrow>
        idea_id idea = length IDEAS + 1 \<and> IDEAS' = IDEAS @ [idea])
   \<and> (submit_interest interp wanted data p IDEAS = (InterestRecorded intr, IDEAS') \<longrightarrow>
        (\<exists>idx. find_idea_index wanted IDEAS = Some idx
           \<and> interest_id intr = length (interests (IDEAS ! idx)) + 1
           \<and> IDEAS' = IDEAS[idx := (IDEAS ! idx)\<lparr>interests := interests (IDEAS ! idx) @ [intr]\<rparr>]))"
proof (intro conjI impI)
  assume r: "reachable interp IDEAS"
  from reachable_ids [OF r] show "map idea_id IDEAS = [1..<Suc (length IDEAS)]"
    by simp
  then show "distinct (map idea_id IDEAS)"
    by simp
  have "map interest_id (interests i) = [1..<Suc (length (interests i))]
      \<Longrightarrow> distinct (map interest_id (interests i))" for i
    by simp
  with reachable_ids [OF r]
  show "list_all (\<lambda>i. map interest_id (interests i) = [1..<Suc (length (interests i))]
                     \<and> distinct (map interest_id (interests i))) IDEAS"
    by (simp add: list_all_iff)
next
  assume "post_idea data IDEAS = (IdeaCreated idea, IDEAS')"
  with post_idea_shape [of data IDEAS] show "idea_id idea = length IDEAS + 1" "IDEAS' = IDEAS @ [idea]"
    by auto
next
  assume "submit_interest interp wanted data p IDEAS = (InterestRecorded intr, IDEAS')"
  with submit_interest_shape [of interp wanted data p IDEAS]
  show "\<exists>idx. find_idea_index wanted IDEAS = Some idx
           \<and> interest_id intr = length (interests (IDEAS ! idx)) + 1
           \<and> IDEAS' = IDEAS[idx := (IDEAS ! idx)\<lparr>interests := interests (IDEAS ! idx) @ [intr]\<rparr>]"
    by auto
qed

lemma submit_interest_accepts:
  assumes "find_idea_index wanted IDEAS = Some idx" "missing_fields required data = []"
    "map_of data ''answers'' = Some answs"
    "py_len (generated_questions (IDEAS ! idx)) = Inr n" "py_len answs = Inr n"
  shows "\<exists>intr. submit_interest interp wanted data (Inr (PDict kvs)) IDEAS =
           (InterestRecorded intr,
            IDEAS[idx := (IDEAS ! idx)\<lparr>interests := interests (IDEAS ! idx) @ [intr]\<rparr>])"
  using submit_interest_run_match(2) [OF assms(2-5), where kvs = kvs and interp = interp] assms(1,2)
  by (auto simp: submit_interest_def)

lemma example_three_eq:
  "example_three = [example_created 1, example_created 2, example_created 3]"
  by (simp add: example_three_def post_example numeral_2_eq_2 numeral_3_eq_3)

theorem sequential_ids_witness:
  "reachable (cpython_3_12 100) example_three
   \<and> map idea_id example_three = [1..<Suc (length example_three)]
   \<and> map idea_id example_three = [1, 2, 3]
   \<and> post_idea example_idea [] = (IdeaCreated (example_created 1), [] @ [example_created 1])
   \<and> idea_id (example_created 1) = length ([] :: idea list) + 1
   \<and> (\<exists>i1 i2 i3.
        submit_interest (cpython_3_12 100) 2 (example_interest (PList [])) (Inr (PDict [])) example_three
          = (InterestRecorded i1,
             [example_created 1, (example_created 2)\<lparr>interests := [i1]\<rparr>, example_created 3])
        \<and> interest_id i1 = 1
        \<and> submit_interest (cpython_3_12 100) 2 (example_interest (PList [])) (Inr (PDict []))
             [example_created 1, (example_created 2)\<lparr>interests := [i1]\<rparr>, example_created 3]
          = (InterestRecorded i2,
             [example_created 1, (example_created 2)\<lparr>interests := [i1, i2]\<rparr>, example_created 3])
        \<and> interest_id i2 = 2
        \<and> submit_interest (cpython_3_12 100) 1 (example_interest (PList [])) (Inr (PDict []))
             [example_created 1, (example_created 2)\<lparr>interests := [i1, i2]\<rparr>, example_created 3]
          = (InterestRecorded i3,
             [(example_created 1)\<lparr>interests := [i3]\<rparr>,
              (example_created 2)\<lparr>interests := [i1, i2]\<rparr>, example_created 3])
        \<and> interest_id i3 = 1)"
proof -
  let ?D = "example_interest (PList [])"
  let ?P = "Inr (PDict []) :: py_error + pyval"
  have r: "reachable (cpython_3_12 100) example_three"
    unfolding example_three_def by (intro reachable.intros)
  from sequential_ids [where IDEAS = example_three] r
  have a: "map idea_id example_three = [1..<Suc (length example_three)]"
    by blast
  have ids: "map idea_id example_three = [1, 2, 3]"
    unfolding a by (simp add: example_three_eq upt_rec)
  have p: "post_idea example_idea [] = (IdeaCreated (example_created 1), [] @ [example_created 1])"
    using post_example [of "[]"] by simp
  from sequential_ids [where data = example_idea and IDEAS = "[]" and idea = "example_created 1"
      and IDEAS' = "[] @ [example_created 1]"] p
  have b: "idea_id (example_created 1) = length ([] :: idea list) + 1"
    by blast
  have len: "py_len (PList []) = Inr 0"
    by (simp add: py_len_def)
  have q: "generated_questions ((example_created n)\<lparr>interests := xs\<rparr>) = PList []"
    "generated_questions (example_created n) = PList []" for n xs
    by (simp_all add: example_created_def)
  have i: "idea_id ((example_created n)\<lparr>interests := xs\<rparr>) = n" "idea_id (example_created n) = n"
    "interests (example_created n) = []" for n xs
    by (simp_all add: example_created_def)
  define S0 where "S0 = [example_created 1, example_created 2, example_created 3]"
  have f0: "find_idea_index 2 S0 = Some 1"
    by (simp add: S0_def find_idea_index_def i)
  have "\<exists>intr. submit_interest (cpython_3_12 100) 2 ?D ?P S0 =
      (InterestRecorded intr, S0[1 := (S0 ! 1)\<lparr>interests := interests (S0 ! 1) @ [intr]\<rparr>])"
    by (rule submit_interest_accepts [where answs = "PList []" and n = 0])
       (simp_all add: S0_def find_idea_index_def i q example_interest_fields py_len_def)
  then obtain i1 where s1: "submit_interest (cpython_3_12 100) 2 ?D ?P S0 =
      (InterestRecorded i1, S0[1 := (S0 ! 1)\<lparr>interests := interests (S0 ! 1) @ [i1]\<rparr>])"
    by blast
  from sequential_ids [where wanted = 2 and data = ?D and p = ?P and IDEAS = S0 and intr = i1
      and IDEAS' = "S0[1 := (S0 ! 1)\<lparr>interests := interests (S0 ! 1) @ [i1]\<rparr>]"] s1 f0
  have n1: "interest_id i1 = 1"
    by (auto simp: S0_def i)
  define S1 where "S1 = [example_created 1, (example_created 2)\<lparr>interests := [i1]\<rparr>, example_created 3]"
  have e1: "S0[1 := (S0 ! 1)\<lparr>interests := interests (S0 ! 1) @ [i1]\<rparr>] = S1"
    by (simp add: S0_def S1_def i)
  have f1: "find_idea_index 2 S1 = Some 1"
    by (simp add: S1_def find_idea_index_def i)
  have "\<exists>intr. submit_interest (cpython_3_12 100) 2 ?D ?P S1 =
      (InterestRecorded intr, S1[1 := (S1 ! 1)\<lparr>interests := interests (S1 ! 1) @ [intr]\<rparr>])"
    by (rule submit_interest_accepts [where answs = "PList []" and n = 0])
       (simp_all add: S1_def find_idea_index_def i q example_interest_fields py_len_def)
  then obtain i2 where s2: "submit_interest (cpython_3_12 100) 2 ?D ?P S1 =
      (InterestRecorded i2, S1[1 := (S1 ! 1)\<lparr>interests := interests (S1 ! 1) @ [i2]\<rparr>])"
    by blast
  from sequential_ids [where wanted = 2 and data = ?D and p = ?P and IDEAS = S1 and intr = i2
      and IDEAS' = "S1[1 := (S1 ! 1)\<lparr>interests := interests (S1 ! 1) @ [i2]\<rparr>]"] s2 f1
  have n2: "interest_id i2 = 2"
    by (auto simp: S1_def)
  define S2 where "S2 = [example_created 1, (example_created 2)\<lparr>interests := [i1, i2]\<rparr>, example_created 3]"
  have e2: "S1[1 := (S1 ! 1)\<lparr>interests := interests (S1 ! 1) @ [i2]\<rparr>] = S2"
    by (simp add: S1_def S2_def)
  have f2: "find_idea_index 1 S2 = Some 0"
    by (simp add: S2_def find_idea_index_def i)
  have "\<exists>intr. submit_interest (cpython_3_12 100) 1 ?D ?P S2 =
      (InterestRecorded intr, S2[0 := (S2 ! 0)\<lparr>interests := interests (S2 ! 0) @ [intr]\<rparr>])"
    by (rule submit_interest_accepts [where answs = "PList []" and n = 0])
       (simp_all add: S2_def find_idea_index_def i q example_interest_fields py_len_def)
  then obtain i3 where s3: "submit_interest (cpython_3_12 100) 1 ?D ?P S2 =
      (InterestRecorded i3, S2[0 := (S2 ! 0)\<lparr>interests := interests (S2 ! 0) @ [i3]\<rparr>])"
    by blast
  from sequential_ids [where wanted = 1 and data = ?D and p = ?P and IDEAS = S2 and intr = i3
      and IDEAS' = "S2[0 := (S2 ! 0)\<lparr>interests := interests (S2 ! 0) @ [i3]\<rparr>]"] s3 f2
  have n3: "interest_id i3 = 1"
    by (auto simp: S2_def i)
  have e3: "S2[0 := (S2 ! 0)\<lparr>interests := interests (S2 ! 0) @ [i3]\<rparr>] =
      [(example_created 1)\<lparr>interests := [i3]\<rparr>,
       (example_created 2)\<lparr>interests := [i1, i2]\<rparr>, example_created 3]"
    by (simp add: S2_def i)
  have "submit_interest (cpython_3_12 100) 2 ?D ?P example_three = (InterestRecorded i1, S1)"
    using s1 e1 by (simp add: example_three_eq S0_def)
  moreover have "submit_interest (cpython_3_12 100) 2 ?D ?P S1 = (InterestRecorded i2, S2)"
    using s2 e2 by simp
  moreover have "submit_interest (cpython_3_12 100) 1 ?D ?P S2 = (InterestRecorded i3,
      [(example_created 1)\<lparr>interests := [i3]\<rparr>,
       (example_created 2)\<lparr>interests := [i1, i2]\<rparr>, example_created 3])"
    using s3 e3 by simp
  ultimately have "\<exists>i1 i2 i3.
        submit_interest (cpython_3_12 100) 2 ?D ?P example_three
          = (InterestRecorded i1,
             [example_created 1, (example_created 2)\<lparr>interests := [i1]\<rparr>, example_created 3])
        \<and> interest_id i1 = 1
        \<and> submit_interest (cpython_3_12 100) 2 ?D ?P
             [example_created 1, (example_created 2)\<lparr>interests := [i1]\<rparr>, example_created 3]
          = (InterestRecorded i2,
             [example_created 1, (example_created 2)\<lparr>interests := [i1, i2]\<rparr>, example_created 3])
        \<and> interest_id i2 = 2
        \<and> submit_interest (cpython_3_12 100) 1 ?D ?P
             [example_created 1, (example_created 2)\<lparr>interests := [i1, i2]\<rparr>, example_created 3]
          = (InterestRecorded i3,
             [(example_created 1)\<lparr>interests := [i3]\<rparr>,
              (example_created 2)\<lparr>interests := [i1, i2]\<rparr>, example_created 3])
        \<and> interest_id i3 = 1"
    using n1 n2 n3 unfolding S1_def S2_def by blast
  with r a ids p b show ?thesis
    by blast
qed

end
